theory Spec2Isabelle
  imports Main "HOL-Library.Word" "HOL-Library.AList"
begin

section \<open>Data model of the collector (pkg/collector/collector.go)\<close>

text \<open>
  Go strings are byte sequences and are modelled as \<open>string\<close>; a Go slice of strings is
  a \<open>string list\<close> (a nil slice and an empty slice are both \<open>[]\<close>, which is also how
  \<open>slices.Equal\<close>, \<open>len\<close> and \<open>range\<close> treat them). The structs of the tracing
  package and of the profile type are used by the collector field by field; each record
  below lists exactly the fields the collector reads or writes. Field names carry a
  short prefix because several structs share the names \<open>Path\<close>, \<open>PathName\<close>,
  \<open>Syscall\<close>, \<open>Port\<close>...
\<close>

definition RecordStrategyAlways :: string where
  "RecordStrategyAlways = ''always''"

definition RecordStrategyOnlyIfNotExists :: string where
  "RecordStrategyOnlyIfNotExists = ''only-if-not-exists''"

definition MaxOpenEvents :: nat where
  "MaxOpenEvents = 10000"

definition MaxNetworkEvents :: nat where
  "MaxNetworkEvents = 10000"

record ContainerId =
  Namespace :: string
  PodName :: string
  Container :: string
  ContainerID :: string
  NsMntId :: "64 word"
  Pid :: "32 word"

record ContainerState =
  running :: bool
  attached :: bool

record CollectorManagerConfig =
  Interval :: "64 word"
  FinalizeTime :: "64 word"
  FinalizeJitter :: "64 word"
  RecordStrategy :: string
  NodeName :: string
  IgnoreMounts :: bool
  IgnorePrefixes :: "string list"
  StoreNamespace :: string

text \<open>Events handed over by the event sink and the tracer (package tracing).\<close>

record ExecveEvent =
  ee_PathName :: string
  ee_Args :: "string list"
  ee_Env :: "string list"

record OpenEvent =
  oe_PathName :: string
  oe_Flags :: "string list"

record CapabilitiesEvent =
  ce_Syscall :: string
  ce_CapabilityName :: string

record DnsEvent =
  de_DnsName :: string
  de_Addresses :: "string list"

text \<open>
  The declaration of \<open>NetworkEvent\<close> is not part of the sources at hand; the collector only
  copies the port and compares it for equality, so the port is a natural number here.
\<close>

record NetworkEvent =
  ne_PacketType :: string
  ne_Protocol :: string
  ne_Port :: nat
  ne_DstEndpoint :: string

record TotalEvents =
  ExecEvents :: "ExecveEvent list"
  OpenEvents :: "OpenEvent list"
  SyscallEvents :: "string list"
  CapabilitiesEvents :: "CapabilitiesEvent list"
  DnsEvents :: "DnsEvent list"
  NetworkEvents :: "NetworkEvent list"

text \<open>The entries of a container profile.\<close>

record ExecCalls =
  ec_Path :: string
  ec_Args :: "string list"
  ec_Envs :: "string list"

record OpenCalls =
  oc_Path :: string
  oc_Flags :: "string list"

record DnsCalls =
  dc_DnsName :: string
  dc_Addresses :: "string list"

record CapabilitiesCalls =
  cc_Capabilities :: "string list"
  cc_Syscall :: string

record NetworkCalls =
  nc_Protocol :: string
  nc_Port :: nat
  nc_DstEndpoint :: string

record NetworkActivity =
  Incoming :: "NetworkCalls list"
  Outgoing :: "NetworkCalls list"

record ContainerProfile =
  Name :: string
  SysCalls :: "string list"
  Execs :: "ExecCalls list"
  Dns :: "DnsCalls list"
  Capabilities :: "CapabilitiesCalls list"
  Opens :: "OpenCalls list"
  NetworkActivity :: NetworkActivity

text \<open>
  A stored application profile: the label map of its metadata and \<open>Spec.Containers\<close>.
  The object name is the key under which the store holds it.
\<close>

record ApplicationProfile =
  Labels :: "string \<rightharpoonup> string"
  Containers :: "ContainerProfile list"

definition label_partial :: string where
  "label_partial = ''kapprofiler.kubescape.io/partial''"

definition label_failed :: string where
  "label_failed = ''kapprofiler.kubescape.io/failed''"

definition label_final :: string where
  "label_final = ''kapprofiler.kubescape.io/final''"

definition label_namespace :: string where
  "label_namespace = ''kapprofiler.kubescape.io/namespace''"


section \<open>Deduplication predicates\<close>

text \<open>\<open>execEventExists\<close>: a stored call with the same path, args and envs.\<close>

fun execEventExists :: "ExecveEvent \<Rightarrow> ExecCalls list \<Rightarrow> bool" where
  "execEventExists execEvent [] = False"
| "execEventExists execEvent (call # execCalls) =
     (if ee_PathName execEvent = ec_Path call \<and> ee_Args execEvent = ec_Args call
         \<and> ee_Env execEvent = ec_Envs call
      then True
      else execEventExists execEvent execCalls)"

fun networkEventExists :: "NetworkEvent \<Rightarrow> NetworkCalls list \<Rightarrow> bool" where
  "networkEventExists networkEvent [] = False"
| "networkEventExists networkEvent (call # networkCalls) =
     (if ne_DstEndpoint networkEvent = nc_DstEndpoint call \<and> ne_Port networkEvent = nc_Port call
         \<and> ne_Protocol networkEvent = nc_Protocol call
      then True
      else networkEventExists networkEvent networkCalls)"

text \<open>
  \<open>dnsEventExists\<close> ranges over the calls by value: \<open>for _, call := range dnsCalls\<close>
  copies each element into the loop variable \<open>call\<close>. The inner loop appends the missing
  addresses to \<open>call.Addresses\<close>, that is, to the slice header of the copy; the element of
  \<open>dnsCalls\<close> keeps its own header (same length), so the caller's slice is observably
  unchanged. \<open>dns_local_addresses\<close> is the value the local copy ends with; the function
  returns only the boolean, so that value is dropped.
\<close>

fun dns_local_addresses :: "string list \<Rightarrow> string list \<Rightarrow> string list" where
  "dns_local_addresses [] callAddresses = callAddresses"
| "dns_local_addresses (address # addresses) callAddresses =
     (if address \<notin> set callAddresses
      then dns_local_addresses addresses (callAddresses @ [address])
      else dns_local_addresses addresses callAddresses)"

fun dnsEventExists :: "DnsEvent \<Rightarrow> DnsCalls list \<Rightarrow> bool" where
  "dnsEventExists dnsEvent [] = False"
| "dnsEventExists dnsEvent (call # dnsCalls) =
     (if de_DnsName dnsEvent = dc_DnsName call
      then (let call' = call\<lparr>dc_Addresses :=
                  dns_local_addresses (de_Addresses dnsEvent) (dc_Addresses call)\<rparr>
            in True)
      else dnsEventExists dnsEvent dnsCalls)"

text \<open>
  \<open>openEventExists\<close>. \<open>hasAllFlags\<close> is the loop over the flags of the event (it stops
  at the first flag that the stored element lacks); the loop over the stored elements
  carries \<open>hasSamePath\<close> and stops as soon as an element with the same path has all flags.
\<close>

fun hasAllFlags :: "string list \<Rightarrow> string list \<Rightarrow> bool" where
  "hasAllFlags [] elementFlags = True"
| "hasAllFlags (flag # flags) elementFlags =
     (if flag \<in> set elementFlags then hasAllFlags flags elementFlags else False)"

fun openEventExists_loop :: "OpenEvent \<Rightarrow> OpenCalls list \<Rightarrow> bool \<Rightarrow> bool \<times> bool" where
  "openEventExists_loop openEvent [] hasSamePath = (hasSamePath, False)"
| "openEventExists_loop openEvent (element # openEvents) hasSamePath =
     (if oc_Path element = oe_PathName openEvent
      then (if hasAllFlags (oe_Flags openEvent) (oc_Flags element)
            then (True, True)
            else openEventExists_loop openEvent openEvents True)
      else openEventExists_loop openEvent openEvents hasSamePath)"

definition openEventExists :: "OpenEvent \<Rightarrow> OpenCalls list \<Rightarrow> bool \<times> bool" where
  "openEventExists openEvent openEvents = openEventExists_loop openEvent openEvents False"

text \<open>\<open>strings.HasPrefix s prefix\<close>.\<close>

definition HasPrefix :: "string \<Rightarrow> string \<Rightarrow> bool" where
  "HasPrefix s pfx = (length s \<ge> length pfx \<and> take (length pfx) s = pfx)"

fun anyPrefix :: "string \<Rightarrow> string list \<Rightarrow> bool" where
  "anyPrefix s [] = False"
| "anyPrefix s (pfx # prefixes) = (if HasPrefix s pfx then True else anyPrefix s prefixes)"

definition shouldIncludeOpenEvent ::
  "CollectorManagerConfig \<Rightarrow> OpenEvent \<Rightarrow> OpenCalls list \<Rightarrow> string list \<Rightarrow> bool" where
  "shouldIncludeOpenEvent config openEvent openEvents mounts =
     (if length openEvents > MaxOpenEvents then False
      else if anyPrefix (oe_PathName openEvent) (IgnorePrefixes config) then False
      else (case openEventExists openEvent openEvents of (hasSamePath, hasSameFlags) \<Rightarrow>
        if hasSamePath \<and> hasSameFlags then False
        else if IgnoreMounts config \<and> anyPrefix (oe_PathName openEvent) mounts then False
        else True))"


section \<open>Building the delta of a drain (the loops of CollectContainerEvents)\<close>

text \<open>Exec events: appended unless already present, and always when the path is empty.\<close>

fun collectExecs :: "ExecveEvent list \<Rightarrow> ExecCalls list \<Rightarrow> ExecCalls list" where
  "collectExecs [] execs = execs"
| "collectExecs (event # events) execs =
     (if \<not> execEventExists event execs \<or> ee_PathName event = []
      then collectExecs events
             (execs @ [\<lparr>ec_Path = ee_PathName event, ec_Args = ee_Args event,
                        ec_Envs = ee_Env event\<rparr>])
      else collectExecs events execs)"

fun collectDns :: "DnsEvent list \<Rightarrow> DnsCalls list \<Rightarrow> DnsCalls list" where
  "collectDns [] dns = dns"
| "collectDns (event # events) dns =
     (if \<not> dnsEventExists event dns
      then collectDns events
             (dns @ [\<lparr>dc_DnsName = de_DnsName event, dc_Addresses = de_Addresses event\<rparr>])
      else collectDns events dns)"

text \<open>
  Capabilities: the inner loop looks for the first entry of the same syscall and extends
  that entry by index (\<open>containerProfile.Capabilities[i].Capabilities = append ...\<close>), then
  breaks. It returns \<open>syscallExists\<close> and the slice after the loop.
\<close>

fun addCapability :: "CapabilitiesEvent \<Rightarrow> CapabilitiesCalls list \<Rightarrow> bool \<times> CapabilitiesCalls list" where
  "addCapability event [] = (False, [])"
| "addCapability event (capability # rest) =
     (if cc_Syscall capability = ce_Syscall event
      then (True,
            (if ce_CapabilityName event \<notin> set (cc_Capabilities capability)
             then capability\<lparr>cc_Capabilities :=
                    cc_Capabilities capability @ [ce_CapabilityName event]\<rparr>
             else capability) # rest)
      else (case addCapability event rest of
              (syscallExists, rest') \<Rightarrow> (syscallExists, capability # rest')))"

fun collectCapabilities :: "CapabilitiesEvent list \<Rightarrow> CapabilitiesCalls list \<Rightarrow> CapabilitiesCalls list" where
  "collectCapabilities [] capabilities = capabilities"
| "collectCapabilities (event # events) capabilities =
     (case addCapability event capabilities of
        (syscallExists, capabilities') \<Rightarrow>
          if \<not> syscallExists
          then collectCapabilities events
                 (capabilities' @ [\<lparr>cc_Capabilities = [ce_CapabilityName event],
                                    cc_Syscall = ce_Syscall event\<rparr>])
          else collectCapabilities events capabilities')"

fun collectOpens ::
  "CollectorManagerConfig \<Rightarrow> string list \<Rightarrow> OpenEvent list \<Rightarrow> OpenCalls list \<Rightarrow> OpenCalls list" where
  "collectOpens config mounts [] opens = opens"
| "collectOpens config mounts (event # events) opens =
     (if shouldIncludeOpenEvent config event opens mounts
      then collectOpens config mounts events
             (opens @ [\<lparr>oc_Path = oe_PathName event, oc_Flags = oe_Flags event\<rparr>])
      else collectOpens config mounts events opens)"

text \<open>Network events: the pair is (outgoingConnections, incomingConnections).\<close>

fun collectNetwork ::
  "NetworkEvent list \<Rightarrow> NetworkCalls list \<times> NetworkCalls list \<Rightarrow> NetworkCalls list \<times> NetworkCalls list" where
  "collectNetwork [] conns = conns"
| "collectNetwork (networkEvent # events) (outgoingConnections, incomingConnections) =
     (let call = \<lparr>nc_Protocol = ne_Protocol networkEvent, nc_Port = ne_Port networkEvent,
                  nc_DstEndpoint = ne_DstEndpoint networkEvent\<rparr>
      in if ne_PacketType networkEvent = ''OUTGOING''
         then (if \<not> networkEventExists networkEvent outgoingConnections
               then collectNetwork events (outgoingConnections @ [call], incomingConnections)
               else collectNetwork events (outgoingConnections, incomingConnections))
         else if ne_PacketType networkEvent = ''HOST''
         then (if \<not> networkEventExists networkEvent incomingConnections
               then collectNetwork events (outgoingConnections, incomingConnections @ [call])
               else collectNetwork events (outgoingConnections, incomingConnections))
         else collectNetwork events (outgoingConnections, incomingConnections))"

definition shouldProcessEvents :: "TotalEvents \<Rightarrow> bool" where
  "shouldProcessEvents totalEvents =
     (length (ExecEvents totalEvents) > 0 \<or> length (OpenEvents totalEvents) > 0
      \<or> length (SyscallEvents totalEvents) > 0 \<or> length (CapabilitiesEvents totalEvents) > 0
      \<or> length (DnsEvents totalEvents) > 0 \<or> length (NetworkEvents totalEvents) > 0)"

definition buildContainerProfile ::
  "CollectorManagerConfig \<Rightarrow> ContainerId \<Rightarrow> string list \<Rightarrow> TotalEvents \<Rightarrow> ContainerProfile" where
  "buildContainerProfile config cid mounts totalEvents =
     (case collectNetwork (NetworkEvents totalEvents) ([], []) of
        (outgoingConnections, incomingConnections) \<Rightarrow>
          \<lparr>Name = Container cid,
           SysCalls = SyscallEvents totalEvents,
           Execs = collectExecs (ExecEvents totalEvents) [],
           Dns = collectDns (DnsEvents totalEvents) [],
           Capabilities = collectCapabilities (CapabilitiesEvents totalEvents) [],
           Opens = collectOpens config mounts (OpenEvents totalEvents) [],
           NetworkActivity = \<lparr>Incoming = incomingConnections, Outgoing = outgoingConnections\<rparr>\<rparr>)"


section \<open>mergeApplicationProfiles\<close>

definition mergeSysCalls :: "string list \<Rightarrow> string list \<Rightarrow> string list" where
  "mergeSysCalls existing delta = existing @ filter (\<lambda>syscall. syscall \<notin> set existing) delta"

definition mergeExecs :: "ExecCalls list \<Rightarrow> ExecCalls list \<Rightarrow> ExecCalls list" where
  "mergeExecs existing delta =
     existing @ filter (\<lambda>exec. \<not> execEventExists
        \<lparr>ee_PathName = ec_Path exec, ee_Args = ec_Args exec, ee_Env = ec_Envs exec\<rparr> existing) delta"

definition mergeDns :: "DnsCalls list \<Rightarrow> DnsCalls list \<Rightarrow> DnsCalls list" where
  "mergeDns existing delta =
     existing @ filter (\<lambda>dns. \<not> dnsEventExists
        \<lparr>de_DnsName = dc_DnsName dns, de_Addresses = dc_Addresses dns\<rparr> existing) delta"

text \<open>
  Capabilities. For a delta entry, the loop over the stored entries takes the first one
  with the same syscall as the range value \<open>existingCapability\<close> (a copy made when the
  iteration starts). The loop over the capability names of the delta entry tests each
  name against that copy and assigns \<open>append(existingCapability.Capabilities, cap)\<close> to
  the stored element: every assignment starts again from the copy. In
  \<open>mergeCapabilityNames\<close> the second argument is the copy and the third the stored
  element's list so far.
\<close>

fun mergeCapabilityNames :: "string list \<Rightarrow> string list \<Rightarrow> string list \<Rightarrow> string list" where
  "mergeCapabilityNames [] existingCaps stored = stored"
| "mergeCapabilityNames (cap # caps) existingCaps stored =
     (if cap \<notin> set existingCaps
      then mergeCapabilityNames caps existingCaps (existingCaps @ [cap])
      else mergeCapabilityNames caps existingCaps stored)"

fun mergeCapabilityInto :: "CapabilitiesCalls \<Rightarrow> CapabilitiesCalls list \<Rightarrow> bool \<times> CapabilitiesCalls list" where
  "mergeCapabilityInto capability [] = (False, [])"
| "mergeCapabilityInto capability (existingCapability # rest) =
     (if cc_Syscall existingCapability = cc_Syscall capability
      then (True,
            existingCapability\<lparr>cc_Capabilities :=
              mergeCapabilityNames (cc_Capabilities capability)
                (cc_Capabilities existingCapability) (cc_Capabilities existingCapability)\<rparr> # rest)
      else (case mergeCapabilityInto capability rest of
              (syscallExists, rest') \<Rightarrow> (syscallExists, existingCapability # rest')))"

fun mergeCapabilities_loop ::
  "CapabilitiesCalls list \<Rightarrow> CapabilitiesCalls list \<Rightarrow> CapabilitiesCalls list
   \<Rightarrow> CapabilitiesCalls list \<times> CapabilitiesCalls list" where
  "mergeCapabilities_loop [] existing filteredCapabilities = (existing, filteredCapabilities)"
| "mergeCapabilities_loop (capability # rest) existing filteredCapabilities =
     (case mergeCapabilityInto capability existing of
        (syscallExists, existing') \<Rightarrow>
          if \<not> syscallExists
          then mergeCapabilities_loop rest existing' (filteredCapabilities @ [capability])
          else mergeCapabilities_loop rest existing' filteredCapabilities)"

definition mergeCapabilities :: "CapabilitiesCalls list \<Rightarrow> CapabilitiesCalls list \<Rightarrow> CapabilitiesCalls list" where
  "mergeCapabilities existing delta =
     (case mergeCapabilities_loop delta existing [] of
        (existing', filteredCapabilities) \<Rightarrow> existing' @ filteredCapabilities)"

text \<open>Opens: every delta entry is tested against the stored opens as they were read.\<close>

definition mergeOpens ::
  "CollectorManagerConfig \<Rightarrow> string list \<Rightarrow> OpenCalls list \<Rightarrow> OpenCalls list \<Rightarrow> OpenCalls list" where
  "mergeOpens config mounts existing delta =
     existing @ filter (\<lambda>openCall. shouldIncludeOpenEvent config
        \<lparr>oe_PathName = oc_Path openCall, oe_Flags = oc_Flags openCall\<rparr> existing mounts) delta"

text \<open>Network: tested against the stored list as it grows, and capped.\<close>

fun mergeNetwork :: "NetworkCalls list \<Rightarrow> NetworkCalls list \<Rightarrow> NetworkCalls list" where
  "mergeNetwork [] existing = existing"
| "mergeNetwork (networkEvent # rest) existing =
     (if length existing < MaxNetworkEvents
         \<and> \<not> networkEventExists
              \<lparr>ne_PacketType = [], ne_Protocol = nc_Protocol networkEvent,
               ne_Port = nc_Port networkEvent, ne_DstEndpoint = nc_DstEndpoint networkEvent\<rparr>
              existing
      then mergeNetwork rest (existing @ [networkEvent])
      else mergeNetwork rest existing)"

definition mergeContainer ::
  "CollectorManagerConfig \<Rightarrow> string list \<Rightarrow> ContainerProfile \<Rightarrow> ContainerProfile \<Rightarrow> ContainerProfile" where
  "mergeContainer config mounts existingContainer containerProfile =
     existingContainer
       \<lparr>SysCalls := mergeSysCalls (SysCalls existingContainer) (SysCalls containerProfile),
        Execs := mergeExecs (Execs existingContainer) (Execs containerProfile),
        Dns := mergeDns (Dns existingContainer) (Dns containerProfile),
        Capabilities := mergeCapabilities (Capabilities existingContainer) (Capabilities containerProfile),
        Opens := mergeOpens config mounts (Opens existingContainer) (Opens containerProfile),
        NetworkActivity :=
          \<lparr>Incoming = mergeNetwork (Incoming (NetworkActivity containerProfile))
                         (Incoming (NetworkActivity existingContainer)),
           Outgoing = mergeNetwork (Outgoing (NetworkActivity containerProfile))
                         (Outgoing (NetworkActivity existingContainer))\<rparr>\<rparr>"

text \<open>
  The loop over \<open>Spec.Containers\<close>: the first container of the same name is replaced by
  the merge; when there is none the delta is appended.
\<close>

fun mergeContainers ::
  "CollectorManagerConfig \<Rightarrow> string list \<Rightarrow> ContainerProfile list \<Rightarrow> ContainerProfile
   \<Rightarrow> ContainerProfile list" where
  "mergeContainers config mounts [] containerProfile = [containerProfile]"
| "mergeContainers config mounts (existingContainerProfile # rest) containerProfile =
     (if Name existingContainerProfile = Name containerProfile
      then mergeContainer config mounts existingContainerProfile containerProfile # rest
      else existingContainerProfile # mergeContainers config mounts rest containerProfile)"


section \<open>The collector manager and its collaborators\<close>

text \<open>
  Cluster objects the collector reads: a pod with its owner references and, per container,
  the mount paths of its volume mounts; a replica set with its owner references.
  \<open>owner.Controller\<close> is a pointer to a boolean.
\<close>

record OwnerReference =
  or_Kind :: string
  or_Name :: string
  or_Controller :: "bool option"

record Pod =
  pod_OwnerReferences :: "OwnerReference list"
  pod_ContainerMounts :: "string list list"

record ReplicaSet =
  rs_OwnerReferences :: "OwnerReference list"

text \<open>
  Modelled from the spec: the per-pod finalizer state (PodProfileFinalizerState) and the
  functions MarkPodRecording and MarkPodNotRecording are called by collector.go and
  declared in a file that is not among the sources. The deadline and the timer handle
  are real-time values; the state keeps the two flags, and the arming and cancelling of
  the timer are recorded as effects. The table is keyed by namespace/pod.
\<close>

record PodProfileFinalizerState =
  recording :: bool
  any_attached :: bool

text \<open>
  The state: the three tables of the CollectorManager and the cluster objects. The
  container registry is a Go map that ContainerStopped iterates over; it is an association
  list with one entry per key (\<open>AList.update\<close>, \<open>AList.delete\<close>, \<open>map_of\<close>), the
  other tables are only looked up and are maps. Profiles are keyed by (namespace, name).
\<close>

record World =
  containers :: "(ContainerId \<times> ContainerState) list"
  podMountCache :: "string \<rightharpoonup> string list"
  podFinalizerState :: "string \<rightharpoonup> PodProfileFinalizerState"
  pods :: "string \<times> string \<rightharpoonup> Pod"
  replicaSets :: "string \<times> string \<rightharpoonup> ReplicaSet"
  profiles :: "string \<times> string \<rightharpoonup> ApplicationProfile"

text \<open>
  Calls to the collaborators (event sink, tracer, timers, cluster API) are returned by
  every operation as the list of effects it performed, in order.
\<close>

datatype effect =
    AddFilter string
  | RemoveFilter string
  | StartTraceContainer "64 word" "32 word"
  | StopTraceContainer "64 word" "32 word"
  | StartContainerTimer ContainerId
  | LoadTotalEvents ContainerId
  | ArmFinalizeTimer string
  | CancelFinalizeTimer string
  | PodGet "string \<times> string"
  | ReplicaSetGet "string \<times> string"
  | ProfileGet "string \<times> string"
  | ProfileCreate "string \<times> string"
  | ProfileUpdate "string \<times> string"
  | ProfilePatch "string \<times> string" string

fun is_store_write :: "effect \<Rightarrow> bool" where
  "is_store_write (ProfileCreate k) = True"
| "is_store_write (ProfileUpdate k) = True"
| "is_store_write (ProfilePatch k l) = True"
| "is_store_write e = False"

fun is_store_call :: "effect \<Rightarrow> bool" where
  "is_store_call (ProfileGet k) = True"
| "is_store_call e = is_store_write e"

fun is_cluster_read :: "effect \<Rightarrow> bool" where
  "is_cluster_read (PodGet k) = True"
| "is_cluster_read (ReplicaSetGet k) = True"
| "is_cluster_read (ProfileGet k) = True"
| "is_cluster_read e = False"

text \<open>
  Modelled from the spec: the cluster API behind the dynamic client (section 2, ProfileStore
  adapter: Get/Create/Update/Patch give the profile, NotFound or Conflict). A call fails
  when the object is absent (present, for Create) or when the call is made to fail
  (\<open>ApiFaults\<close>, chosen by the environment for each operation: one flag per verb on
  profiles, and one for each Get of another object, namely the pod and the replica set of
  the owner walk and the pod of getPodMounts); a failed write leaves the store as it is.
  The merge patches the collector sends set one label to "true".
\<close>

record ApiFaults =
  get_err :: bool
  create_err :: bool
  update_err :: bool
  patch_err :: bool
  pod_get_err :: bool
  replicaset_get_err :: bool
  mounts_get_err :: bool

definition noFaults :: ApiFaults where
  "noFaults = \<lparr>get_err = False, create_err = False, update_err = False, patch_err = False,
               pod_get_err = False, replicaset_get_err = False, mounts_get_err = False\<rparr>"

definition podGet :: "ApiFaults \<Rightarrow> World \<Rightarrow> string \<times> string \<Rightarrow> Pod option" where
  "podGet faults w key = (if pod_get_err faults then None else pods w key)"

definition replicaSetGet :: "ApiFaults \<Rightarrow> World \<Rightarrow> string \<times> string \<Rightarrow> ReplicaSet option" where
  "replicaSetGet faults w key = (if replicaset_get_err faults then None else replicaSets w key)"

definition profileGet :: "ApiFaults \<Rightarrow> World \<Rightarrow> string \<times> string \<Rightarrow> ApplicationProfile option" where
  "profileGet faults w key = (if get_err faults then None else profiles w key)"

definition profileCreate :: "ApiFaults \<Rightarrow> World \<Rightarrow> string \<times> string \<Rightarrow> ApplicationProfile \<Rightarrow> World" where
  "profileCreate faults w key appProfile =
     (if create_err faults \<or> profiles w key \<noteq> None then w
      else w\<lparr>profiles := (profiles w)(key \<mapsto> appProfile)\<rparr>)"

definition profileUpdate ::
  "ApiFaults \<Rightarrow> World \<Rightarrow> string \<times> string \<Rightarrow> ApplicationProfile \<Rightarrow> bool \<times> World" where
  "profileUpdate faults w key appProfile =
     (if update_err faults \<or> profiles w key = None then (False, w)
      else (True, w\<lparr>profiles := (profiles w)(key \<mapsto> appProfile)\<rparr>))"

definition profilePatchLabel :: "ApiFaults \<Rightarrow> World \<Rightarrow> string \<times> string \<Rightarrow> string \<Rightarrow> World" where
  "profilePatchLabel faults w key label =
     (case profiles w key of
        None \<Rightarrow> w
      | Some appProfile \<Rightarrow>
          if patch_err faults then w
          else w\<lparr>profiles := (profiles w)(key \<mapsto>
                   appProfile\<lparr>Labels := (Labels appProfile)(label \<mapsto> ''true'')\<rparr>)\<rparr>)"

text \<open>
  Modelled from the spec: MarkPodRecording and MarkPodNotRecording (section 4.5), whose
  source file is missing. MarkPodRecording creates the entry of the pod when there is
  none and arms the finalizer timer, and for a later container only notes an attached
  one; MarkPodNotRecording cancels the timer and clears the entry.
\<close>

definition finalizerKey :: "string \<Rightarrow> string \<Rightarrow> string" where
  "finalizerKey podName namespace = namespace @ ''/'' @ podName"

definition MarkPodRecording :: "string \<Rightarrow> string \<Rightarrow> bool \<Rightarrow> World \<Rightarrow> effect list \<times> World" where
  "MarkPodRecording podName namespace attach w =
     (let key = finalizerKey podName namespace in
      case podFinalizerState w key of
        None \<Rightarrow>
          ([ArmFinalizeTimer key],
           w\<lparr>podFinalizerState := (podFinalizerState w)(key \<mapsto>
                \<lparr>recording = True, any_attached = attach\<rparr>)\<rparr>)
      | Some st \<Rightarrow>
          ([], w\<lparr>podFinalizerState := (podFinalizerState w)(key \<mapsto>
                (if attach then st\<lparr>any_attached := True\<rparr> else st))\<rparr>))"

definition MarkPodNotRecording :: "string \<Rightarrow> string \<Rightarrow> World \<Rightarrow> effect list \<times> World" where
  "MarkPodNotRecording podName namespace w =
     (let key = finalizerKey podName namespace in
      ([CancelFinalizeTimer key], w\<lparr>podFinalizerState := (podFinalizerState w)(key := None)\<rparr>))"


subsection \<open>Profile names and the existence check\<close>

text \<open>
  \<open>strings.ToLower\<close> on the bytes of an ASCII string (kinds and object names of the
  cluster are ASCII): the letters A to Z move to a to z, every other byte stays.
\<close>

definition toLowerChar :: "char \<Rightarrow> char" where
  "toLowerChar c =
     (let n = (of_char c :: nat) in if 65 \<le> n \<and> n \<le> 90 then char_of (n + 32) else c)"

definition ToLower :: "string \<Rightarrow> string" where
  "ToLower s = map toLowerChar s"

definition GetApplicationProfileName ::
  "CollectorManagerConfig \<Rightarrow> string \<Rightarrow> string \<Rightarrow> string \<Rightarrow> string" where
  "GetApplicationProfileName config namespace kind name =
     (if StoreNamespace config \<noteq> []
      then ToLower kind @ ''-'' @ ToLower name @ ''-'' @ namespace
      else ToLower kind @ ''-'' @ ToLower name)"

datatype error = PodGetError | ReplicaSetGetError | ProfileGetError

text \<open>
  The loop over the owner references: the first reference whose Controller is set and
  true gives the workload kind and name, otherwise they stay as they were.
\<close>

fun controllerOwner :: "OwnerReference list \<Rightarrow> string \<times> string \<Rightarrow> string \<times> string" where
  "controllerOwner [] workload = workload"
| "controllerOwner (owner # ownerReferences) workload =
     (if or_Controller owner = Some True then (or_Kind owner, or_Name owner)
      else controllerOwner ownerReferences workload)"

text \<open>
  The owner walk of doesApplicationProfileExists (the branch under checkOwner). A Get
  that fails, of the pod or of the replica set, ends the check with its error.
\<close>

definition ownerWalk ::
  "ApiFaults \<Rightarrow> World \<Rightarrow> string \<Rightarrow> string \<Rightarrow> effect list \<times> (error + string \<times> string)" where
  "ownerWalk faults w namespace podName =
     (case podGet faults w (namespace, podName) of
        None \<Rightarrow> ([PodGet (namespace, podName)], Inl PodGetError)
      | Some pod \<Rightarrow>
          if length (pod_OwnerReferences pod) > 0
          then (case controllerOwner (pod_OwnerReferences pod) (''Pod'', podName) of
                  (workloadKind, workloadName) \<Rightarrow>
                    if workloadKind = ''ReplicaSet''
                    then (case replicaSetGet faults w (namespace, workloadName) of
                            None \<Rightarrow>
                              ([PodGet (namespace, podName), ReplicaSetGet (namespace, workloadName)],
                               Inl ReplicaSetGetError)
                          | Some replicaSet \<Rightarrow>
                              ([PodGet (namespace, podName), ReplicaSetGet (namespace, workloadName)],
                               Inr (controllerOwner (rs_OwnerReferences replicaSet)
                                      (workloadKind, workloadName))))
                    else ([PodGet (namespace, podName)], Inr (workloadKind, workloadName)))
          else ([PodGet (namespace, podName)], Inr (''Pod'', podName)))"

text \<open>
  doesApplicationProfileExists: any error of the Get of the profile (not found, or a
  failed call) is returned as the error of the check.
\<close>

definition doesApplicationProfileExists ::
  "CollectorManagerConfig \<Rightarrow> ApiFaults \<Rightarrow> World \<Rightarrow> string \<Rightarrow> string \<Rightarrow> bool \<Rightarrow> bool
   \<Rightarrow> effect list \<times> (error + bool)" where
  "doesApplicationProfileExists config faults w namespace podName checkFinal checkOwner =
     (case (if checkOwner then ownerWalk faults w namespace podName
            else ([], Inr (''Pod'', podName))) of
        (effs, Inl err) \<Rightarrow> (effs, Inl err)
      | (effs, Inr (workloadKind, workloadName)) \<Rightarrow>
          (let appProfileName = GetApplicationProfileName config namespace workloadKind workloadName;
               namespace' = (if StoreNamespace config \<noteq> [] then StoreNamespace config else namespace)
           in case profileGet faults w (namespace', appProfileName) of
                None \<Rightarrow> (effs @ [ProfileGet (namespace', appProfileName)], Inl ProfileGetError)
              | Some existingApplicationProfile \<Rightarrow>
                  if checkFinal \<and> Labels existingApplicationProfile label_final \<noteq> Some ''true''
                  then (effs @ [ProfileGet (namespace', appProfileName)], Inr False)
                  else (effs @ [ProfileGet (namespace', appProfileName)], Inr True)))"


subsection \<open>ContainerStarted and ContainerStopped\<close>

definition podMountCacheKey :: "ContainerId \<Rightarrow> string" where
  "podMountCacheKey cid = PodName cid @ ''-'' @ Namespace cid"

text \<open>getPodMounts; on an error the caller stores the nil slice it gets back.\<close>

definition getPodMounts :: "ApiFaults \<Rightarrow> World \<Rightarrow> string \<Rightarrow> string \<Rightarrow> string list" where
  "getPodMounts faults w podName namespace =
     (case (if mounts_get_err faults then None else pods w (namespace, podName)) of
        None \<Rightarrow> []
      | Some pod \<Rightarrow> concat (pod_ContainerMounts pod))"

text \<open>
  ContainerStarted. An error of the existence check is ignored (the container is
  recorded); only the answer true, under the strategy only-if-not-exists, returns early.
\<close>

definition ContainerStarted ::
  "CollectorManagerConfig \<Rightarrow> ApiFaults \<Rightarrow> ContainerId \<Rightarrow> bool \<Rightarrow> World
   \<Rightarrow> effect list \<times> World" where
  "ContainerStarted config faults cid attach w =
     (case doesApplicationProfileExists config faults w (Namespace cid) (PodName cid) True True of
        (effs0, res) \<Rightarrow>
          if res = Inr True \<and> RecordStrategy config = RecordStrategyOnlyIfNotExists
          then (effs0, w)
          else
            (let w1 = w\<lparr>containers :=
                        AList.update cid \<lparr>running = True, attached = attach\<rparr> (containers w)\<rparr>;
                 (effs2, w2) =
                   (if podMountCache w1 (podMountCacheKey cid) = None
                    then ([PodGet (Namespace cid, PodName cid)],
                          w1\<lparr>podMountCache := (podMountCache w1)(podMountCacheKey cid \<mapsto>
                                getPodMounts faults w1 (PodName cid) (Namespace cid))\<rparr>)
                    else ([], w1));
                 (effs3, w3) =
                   (if FinalizeTime config > 0 \<and> FinalizeTime config > Interval config
                    then MarkPodRecording (PodName cid) (Namespace cid) attach w2
                    else ([], w2))
             in (effs0 @ [AddFilter (ContainerID cid)] @ effs2
                   @ [StartTraceContainer (NsMntId cid) (Pid cid), StartContainerTimer cid] @ effs3,
                 w3)))"

text \<open>
  The part of ContainerStopped that runs under the registry lock. The final drain it
  schedules (\<open>go cm.CollectContainerEvents(id)\<close>) is added below, after the drain.
\<close>

definition ContainerStopped_locked :: "ContainerId \<Rightarrow> World \<Rightarrow> effect list \<times> World" where
  "ContainerStopped_locked cid w =
     (case map_of (containers w) cid of
        None \<Rightarrow> ([], w)
      | Some containerState \<Rightarrow>
          (case MarkPodNotRecording (PodName cid) (Namespace cid) w of
             (effs1, w1) \<Rightarrow>
               (let w2 = w1\<lparr>containers := AList.delete cid (containers w1)\<rparr>;
                    podExists = list_ex (\<lambda>(containerId, st).
                        PodName containerId = PodName cid \<and> Namespace containerId = Namespace cid)
                      (containers w2);
                    w3 = (if \<not> podExists
                          then w2\<lparr>podMountCache := (podMountCache w2)(podMountCacheKey cid := None)\<rparr>
                          else w2)
                in (effs1 @ [StopTraceContainer (NsMntId cid) (Pid cid), RemoveFilter (ContainerID cid)],
                    w3))))"


subsection \<open>CollectContainerEvents: drain and reconcile\<close>

text \<open>
  The events loadTotalEvents gets from the event sink and the tracer are an input of the
  drain (a getter that fails leaves its slice empty), as are the faults of the cluster API.
\<close>

definition mountsOf :: "World \<Rightarrow> ContainerId \<Rightarrow> string list" where
  "mountsOf w cid = (case podMountCache w (podMountCacheKey cid) of None \<Rightarrow> [] | Some mounts \<Rightarrow> mounts)"

definition mergeApplicationProfiles ::
  "CollectorManagerConfig \<Rightarrow> World \<Rightarrow> ApplicationProfile \<Rightarrow> ContainerProfile \<Rightarrow> ContainerId
   \<Rightarrow> ApplicationProfile" where
  "mergeApplicationProfiles config w existingApplicationProfile containerProfile containerId =
     existingApplicationProfile
       \<lparr>Containers := mergeContainers config (mountsOf w containerId)
                        (Containers existingApplicationProfile) containerProfile\<rparr>"

text \<open>
  The steps both early returns of the drain perform: remove the filter, stop the trace,
  un-mark the pod, delete the container from the registry.
\<close>

definition stopRecording :: "ContainerId \<Rightarrow> World \<Rightarrow> effect list \<times> World" where
  "stopRecording cid w =
     (case MarkPodNotRecording (PodName cid) (Namespace cid) w of
        (effs, w1) \<Rightarrow>
          ([RemoveFilter (ContainerID cid), StopTraceContainer (NsMntId cid) (Pid cid)] @ effs,
           w1\<lparr>containers := AList.delete cid (containers w1)\<rparr>))"

definition profileKey :: "CollectorManagerConfig \<Rightarrow> ContainerId \<Rightarrow> string \<times> string" where
  "profileKey config cid =
     (if StoreNamespace config \<noteq> [] then StoreNamespace config else Namespace cid,
      GetApplicationProfileName config (Namespace cid) ''pod'' (PodName cid))"

definition newProfileLabels ::
  "CollectorManagerConfig \<Rightarrow> ContainerId \<Rightarrow> ContainerState \<Rightarrow> ContainerProfile \<Rightarrow> string \<rightharpoonup> string" where
  "newProfileLabels config cid containerState containerProfile =
     (let labels0 = Map.empty;
          labels1 = (if attached containerState then labels0(label_partial \<mapsto> ''true'') else labels0);
          labels2 = (if length (Opens containerProfile) \<ge> MaxOpenEvents
                     then labels1(label_failed \<mapsto> ''true'') else labels1);
          labels3 = (if StoreNamespace config \<noteq> []
                     then labels2(label_namespace \<mapsto> Namespace cid) else labels2)
      in labels3)"

definition CollectContainerEvents ::
  "CollectorManagerConfig \<Rightarrow> ApiFaults \<Rightarrow> TotalEvents \<Rightarrow> ContainerId \<Rightarrow> World
   \<Rightarrow> effect list \<times> World" where
  "CollectContainerEvents config faults totalEvents cid w =
     (case map_of (containers w) cid of
        None \<Rightarrow> ([], w)
      | Some containerState \<Rightarrow>
          if \<not> shouldProcessEvents totalEvents then ([LoadTotalEvents cid], w)
          else
            (let containerProfile = buildContainerProfile config cid (mountsOf w cid) totalEvents;
                 key = profileKey config cid
             in case profileGet faults w key of
                  None \<Rightarrow>
                    ([LoadTotalEvents cid, ProfileGet key, ProfileCreate key, StartContainerTimer cid],
                     profileCreate faults w key
                       \<lparr>Labels = newProfileLabels config cid containerState containerProfile,
                        Containers = [containerProfile]\<rparr>)
                | Some existingApplicationProfile \<Rightarrow>
                    if Labels existingApplicationProfile label_final = Some ''true''
                    then (case stopRecording cid w of
                            (effs, w1) \<Rightarrow> ([LoadTotalEvents cid, ProfileGet key] @ effs, w1))
                    else
                      (let (effs1, w1) =
                             (if length (Opens containerProfile) \<ge> MaxOpenEvents
                              then ([ProfilePatch key label_failed],
                                    profilePatchLabel faults w key label_failed)
                              else ([], w));
                           existingApplicationProfileObject =
                             (if \<not> attached containerState
                                 \<and> Labels existingApplicationProfile label_partial = Some ''true''
                              then existingApplicationProfile
                                     \<lparr>Labels := [label_partial \<mapsto> ''false'']\<rparr>
                              else existingApplicationProfile);
                           mergedAppProfile =
                             mergeApplicationProfiles config w1 existingApplicationProfileObject
                               containerProfile cid
                       in case profileUpdate faults w1 key mergedAppProfile of
                            (True, w2) \<Rightarrow>
                              ([LoadTotalEvents cid, ProfileGet key] @ effs1
                                 @ [ProfileUpdate key, StartContainerTimer cid], w2)
                          | (False, w2) \<Rightarrow>
                              (case stopRecording cid w2 of
                                 (effs3, w3) \<Rightarrow>
                                   ([LoadTotalEvents cid, ProfileGet key] @ effs1
                                      @ [ProfileUpdate key] @ effs3 @ [ProfilePatch key label_failed],
                                    profilePatchLabel faults w3 key label_failed)))))"

definition FinalizeApplicationProfile ::
  "CollectorManagerConfig \<Rightarrow> ApiFaults \<Rightarrow> ContainerId \<Rightarrow> World \<Rightarrow> effect list \<times> World" where
  "FinalizeApplicationProfile config faults cid w =
     (case map_of (containers w) cid of
        None \<Rightarrow> ([], w)
      | Some containerState \<Rightarrow>
          ([ProfilePatch (profileKey config cid) label_final],
           profilePatchLabel faults w (profileKey config cid) label_final))"

text \<open>
  ContainerStopped: the locked part, then the final drain it starts as a goroutine. The
  goroutine takes the registry lock after ContainerStopped has released it; here it runs
  next.
\<close>

definition ContainerStopped ::
  "CollectorManagerConfig \<Rightarrow> ApiFaults \<Rightarrow> TotalEvents \<Rightarrow> ContainerId \<Rightarrow> World
   \<Rightarrow> effect list \<times> World" where
  "ContainerStopped config faults totalEvents cid w =
     (case ContainerStopped_locked cid w of
        (effs1, w1) \<Rightarrow>
          (case CollectContainerEvents config faults totalEvents cid w1 of
             (effs2, w2) \<Rightarrow> (effs1 @ effs2, w2)))"

text \<open>
  What the collector is asked to do, one action at a time: the three lifecycle events of
  the tracer (OnContainerActivityEvent), a drain timer that fires, a finalizer timer
  that fires. An action carries what the environment supplies to it.
\<close>

datatype action =
    ContainerActivityEventStart ContainerId ApiFaults
  | ContainerActivityEventAttached ContainerId ApiFaults
  | ContainerActivityEventStop ContainerId ApiFaults TotalEvents
  | DrainTimer ContainerId ApiFaults TotalEvents
  | FinalizeTimer ContainerId ApiFaults

fun perform :: "CollectorManagerConfig \<Rightarrow> action \<Rightarrow> World \<Rightarrow> effect list \<times> World" where
  "perform config (ContainerActivityEventStart cid faults) w =
     ContainerStarted config faults cid False w"
| "perform config (ContainerActivityEventAttached cid faults) w =
     ContainerStarted config faults cid True w"
| "perform config (ContainerActivityEventStop cid faults totalEvents) w =
     ContainerStopped config faults totalEvents cid w"
| "perform config (DrainTimer cid faults totalEvents) w =
     CollectContainerEvents config faults totalEvents cid w"
| "perform config (FinalizeTimer cid faults) w = FinalizeApplicationProfile config faults cid w"

fun run :: "CollectorManagerConfig \<Rightarrow> action list \<Rightarrow> World \<Rightarrow> World" where
  "run config [] w = w"
| "run config (a # as) w = run config as (snd (perform config a w))"


section \<open>Scenario values\<close>

text \<open>
  The values of the scenarios of the specification: a container c of pod p in namespace a,
  a collector that records always and stores each profile in the namespace of its
  workload, and the state in which that container is being recorded and the store is
  empty.
\<close>

definition scenario_config :: CollectorManagerConfig where
  "scenario_config =
     \<lparr>Interval = 1, FinalizeTime = 5, FinalizeJitter = 0, RecordStrategy = RecordStrategyAlways,
      NodeName = ''node'', IgnoreMounts = False, IgnorePrefixes = [], StoreNamespace = []\<rparr>"

definition scenario_cid :: ContainerId where
  "scenario_cid =
     \<lparr>Namespace = ''a'', PodName = ''p'', Container = ''c'', ContainerID = ''docker-1'',
      NsMntId = 4026532001, Pid = 4242\<rparr>"

definition noEvents :: TotalEvents where
  "noEvents = \<lparr>ExecEvents = [], OpenEvents = [], SyscallEvents = [], CapabilitiesEvents = [],
               DnsEvents = [], NetworkEvents = []\<rparr>"

definition emptyWorld :: World where
  "emptyWorld = \<lparr>containers = [], podMountCache = Map.empty, podFinalizerState = Map.empty,
                 pods = Map.empty, replicaSets = Map.empty, profiles = Map.empty\<rparr>"

definition recordingWorld :: World where
  "recordingWorld =
     emptyWorld\<lparr>containers := [(scenario_cid, \<lparr>running = True, attached = False\<rparr>)]\<rparr>"

text \<open>n open events with pairwise different paths, n network events with different ports.\<close>

definition manyOpens :: "nat \<Rightarrow> OpenEvent list" where
  "manyOpens n =
     map (\<lambda>i. \<lparr>oe_PathName = ''/data/'' @ replicate i CHR ''x'', oe_Flags = [''O_RDONLY'']\<rparr>) [0..<n]"

definition manyConnections :: "nat \<Rightarrow> NetworkEvent list" where
  "manyConnections n =
     map (\<lambda>i. \<lparr>ne_PacketType = ''HOST'', ne_Protocol = ''TCP'', ne_Port = i,
                ne_DstEndpoint = ''10.0.0.7''\<rparr>) [0..<n]"


text \<open>
  Scenario S6: a pod of the replica set web-7d9f, which the deployment web controls, and
  a stored profile for that deployment; the collector records only if no profile exists.
\<close>

definition onlyIfNotExists_config :: CollectorManagerConfig where
  "onlyIfNotExists_config = scenario_config\<lparr>RecordStrategy := RecordStrategyOnlyIfNotExists\<rparr>"

definition web_cid :: ContainerId where
  "web_cid =
     \<lparr>Namespace = ''a'', PodName = ''web-7d9f-abcde'', Container = ''c'', ContainerID = ''docker-2'',
      NsMntId = 4026532002, Pid = 4343\<rparr>"

definition deploymentWorld :: "ApplicationProfile \<Rightarrow> World" where
  "deploymentWorld appProfile =
     emptyWorld
       \<lparr>pods := [(''a'', ''web-7d9f-abcde'') \<mapsto>
            \<lparr>pod_OwnerReferences =
               [\<lparr>or_Kind = ''ReplicaSet'', or_Name = ''web-7d9f'', or_Controller = Some True\<rparr>],
             pod_ContainerMounts = [[''/data'']]\<rparr>],
        replicaSets := [(''a'', ''web-7d9f'') \<mapsto>
            \<lparr>rs_OwnerReferences =
               [\<lparr>or_Kind = ''Deployment'', or_Name = ''web'', or_Controller = Some True\<rparr>]\<rparr>],
        profiles := [(''a'', ''deployment-web'') \<mapsto> appProfile]\<rparr>"

definition emptyProfile :: ApplicationProfile where
  "emptyProfile = \<lparr>Labels = Map.empty, Containers = []\<rparr>"

definition finalProfile :: ApplicationProfile where
  "finalProfile = \<lparr>Labels = [label_final \<mapsto> ''true''], Containers = []\<rparr>"


text \<open>Exec events of scenario S1, and one without a path name.\<close>

definition exec_sh :: ExecveEvent where
  "exec_sh = \<lparr>ee_PathName = ''/bin/sh'', ee_Args = [''-c'', ''id''], ee_Env = []\<rparr>"

definition exec_ls :: ExecveEvent where
  "exec_ls = \<lparr>ee_PathName = ''/bin/ls'', ee_Args = [''-l''], ee_Env = []\<rparr>"

definition exec_nopath :: ExecveEvent where
  "exec_nopath = \<lparr>ee_PathName = [], ee_Args = [''-c'', ''id''], ee_Env = []\<rparr>"


text \<open>Scenario S5: the container is recorded and the profile of its pod is final.\<close>

definition sealedWorld :: World where
  "sealedWorld = recordingWorld\<lparr>profiles := [(''a'', ''pod-p'') \<mapsto> finalProfile]\<rparr>"


section \<open>Properties of stored profiles\<close>

text \<open>
  The exec entries of a container profile that have a path are pairwise different; every
  container of every stored profile is so.
\<close>

definition execs_deduplicated :: "ContainerProfile \<Rightarrow> bool" where
  "execs_deduplicated containerProfile =
     distinct (filter (\<lambda>exec. ec_Path exec \<noteq> []) (Execs containerProfile))"

definition store_execs_deduplicated :: "World \<Rightarrow> bool" where
  "store_execs_deduplicated w =
     (\<forall>key appProfile. profiles w key = Some appProfile
        \<longrightarrow> list_all execs_deduplicated (Containers appProfile))"

text \<open>The profile stored under a key is final and has the given containers.\<close>

definition sealed :: "World \<Rightarrow> string \<times> string \<Rightarrow> ContainerProfile list \<Rightarrow> bool" where
  "sealed w key containerProfiles =
     (case profiles w key of
        None \<Rightarrow> False
      | Some appProfile \<Rightarrow>
          Labels appProfile label_final = Some ''true''
          \<and> Containers appProfile = containerProfiles)"


section \<open>The open filter\<close>

lemma hasAllFlags_subset: "hasAllFlags flags elementFlags \<longleftrightarrow> set flags \<subseteq> set elementFlags"
  by (induction flags) auto

lemma openEventExists_loop_flags:
  "snd (openEventExists_loop openEvent openEvents sp) \<longleftrightarrow>
     (\<exists>c \<in> set openEvents. oc_Path c = oe_PathName openEvent
        \<and> set (oe_Flags openEvent) \<subseteq> set (oc_Flags c))"
  by (induction openEvents arbitrary: sp) (auto simp: hasAllFlags_subset)

lemma openEventExists_loop_path:
  "snd (openEventExists_loop openEvent openEvents sp) \<Longrightarrow> fst (openEventExists_loop openEvent openEvents sp)"
  by (induction openEvents arbitrary: sp) (auto split: if_splits)

lemma openEventExists_dup:
  "(case openEventExists openEvent openEvents of (hasSamePath, hasSameFlags) \<Rightarrow> hasSamePath \<and> hasSameFlags)
     \<longleftrightarrow> (\<exists>c \<in> set openEvents. oc_Path c = oe_PathName openEvent
        \<and> set (oe_Flags openEvent) \<subseteq> set (oc_Flags c))"
proof -
  obtain p f where pf: "openEventExists_loop openEvent openEvents False = (p, f)"
    by (cases "openEventExists_loop openEvent openEvents False")
  have "f \<Longrightarrow> p"
    using openEventExists_loop_path[of openEvent openEvents False] pf by simp
  moreover have "f \<longleftrightarrow> (\<exists>c \<in> set openEvents. oc_Path c = oe_PathName openEvent
        \<and> set (oe_Flags openEvent) \<subseteq> set (oc_Flags c))"
    using openEventExists_loop_flags[of openEvent openEvents False] pf by simp
  ultimately show ?thesis
    unfolding openEventExists_def pf by auto
qed

lemma shouldIncludeOpenEvent_iff:
  "shouldIncludeOpenEvent config openEvent openEvents mounts
     \<longleftrightarrow> (length openEvents \<le> MaxOpenEvents
          \<and> \<not> anyPrefix (oe_PathName openEvent) (IgnorePrefixes config)
          \<and> \<not> (\<exists>c \<in> set openEvents. oc_Path c = oe_PathName openEvent
                 \<and> set (oe_Flags openEvent) \<subseteq> set (oc_Flags c))
          \<and> \<not> (IgnoreMounts config \<and> anyPrefix (oe_PathName openEvent) mounts))"
proof -
  have "shouldIncludeOpenEvent config openEvent openEvents mounts
     \<longleftrightarrow> (length openEvents \<le> MaxOpenEvents
          \<and> \<not> anyPrefix (oe_PathName openEvent) (IgnorePrefixes config)
          \<and> \<not> (case openEventExists openEvent openEvents of
       (hasSamePath, hasSameFlags) \<Rightarrow> hasSamePath \<and> hasSameFlags)
          \<and> \<not> (IgnoreMounts config \<and> anyPrefix (oe_PathName openEvent) mounts))"
    by (auto simp: shouldIncludeOpenEvent_def split: prod.splits)
  then show ?thesis
    by (simp only: openEventExists_dup)
qed




section \<open>DNS addresses and capability names\<close>

text \<open>
  Claim C4. Two DNS events for example.com, the first with address 1.1.1.1 and the second
  with 2.2.2.2, leave one DNS entry in the profile of the drain, and its addresses are
  those of the first event only: the second event's address is added to the loop
  variable of dnsEventExists and is lost. The merge into a stored profile loses it the
  same way.
\<close>

theorem dns_addresses_not_unioned:
  "Dns (buildContainerProfile config cid mounts
          (totalEvents\<lparr>DnsEvents :=
             [\<lparr>de_DnsName = ''example.com'', de_Addresses = [''1.1.1.1'']\<rparr>,
              \<lparr>de_DnsName = ''example.com'', de_Addresses = [''2.2.2.2'']\<rparr>]\<rparr>))
     = [\<lparr>dc_DnsName = ''example.com'', dc_Addresses = [''1.1.1.1'']\<rparr>]
   \<and> mergeDns [\<lparr>dc_DnsName = ''example.com'', dc_Addresses = [''1.1.1.1'']\<rparr>]
              [\<lparr>dc_DnsName = ''example.com'', dc_Addresses = [''2.2.2.2'']\<rparr>]
     = [\<lparr>dc_DnsName = ''example.com'', dc_Addresses = [''1.1.1.1'']\<rparr>]"
  by (simp add: buildContainerProfile_def mergeDns_def split: prod.splits)

text \<open>
  Claim C7. A stored entry for the syscall chown with the capability CAP_CHOWN, merged
  with a delta entry for chown that names CAP_FOWNER and CAP_DAC_OVERRIDE, ends with
  CAP_CHOWN and CAP_DAC_OVERRIDE: every append starts from the stored list as it was
  read, so of several new capability names only the last one is kept.
\<close>

theorem merge_capabilities_keeps_last_name:
  "Capabilities (mergeContainer config mounts
      (existingContainer\<lparr>Capabilities :=
          [\<lparr>cc_Capabilities = [''CAP_CHOWN''], cc_Syscall = ''chown''\<rparr>]\<rparr>)
      (containerProfile\<lparr>Capabilities :=
          [\<lparr>cc_Capabilities = [''CAP_FOWNER'', ''CAP_DAC_OVERRIDE''], cc_Syscall = ''chown''\<rparr>]\<rparr>))
     = [\<lparr>cc_Capabilities = [''CAP_CHOWN'', ''CAP_DAC_OVERRIDE''], cc_Syscall = ''chown''\<rparr>]"
  by (simp add: mergeContainer_def mergeCapabilities_def)


section \<open>Drains of containers that are not registered\<close>

lemma drain_unregistered:
  "map_of (containers w) cid = None \<Longrightarrow> CollectContainerEvents config faults totalEvents cid w = ([], w)"
  by (simp add: CollectContainerEvents_def)

lemma ContainerStopped_locked_unregisters:
  "map_of (containers (snd (ContainerStopped_locked cid w))) cid = None"
  by (auto simp: ContainerStopped_locked_def MarkPodNotRecording_def Let_def AList.delete_conv' split: option.splits)

lemma ContainerStopped_locked_profiles:
  "profiles (snd (ContainerStopped_locked cid w)) = profiles w"
  by (auto simp: ContainerStopped_locked_def MarkPodNotRecording_def Let_def split: option.splits)

lemma ContainerStopped_locked_effects:
  "filter is_store_call (fst (ContainerStopped_locked cid w)) = []"
  by (auto simp: ContainerStopped_locked_def MarkPodNotRecording_def Let_def split: option.splits)

text \<open>
  Claim C10. For a container id that is not in the registry, CollectContainerEvents does
  nothing: it performs no effect at all (no read of the event sink, no call to the store,
  no timer) and returns the state as it was. After the locked part of ContainerStopped
  the id is not in the registry, so the final drain that ContainerStopped starts is such a
  no-op: ContainerStopped as a whole leaves the store as it was and makes no call to it.
\<close>

theorem unregistered_drain_is_noop:
  "(map_of (containers w) cid = None \<longrightarrow>
      CollectContainerEvents config faults totalEvents cid w = ([], w))
   \<and> CollectContainerEvents config faults totalEvents cid (snd (ContainerStopped_locked cid w))
       = ([], snd (ContainerStopped_locked cid w))
   \<and> ContainerStopped config faults totalEvents cid w = ContainerStopped_locked cid w
   \<and> profiles (snd (ContainerStopped config faults totalEvents cid w)) = profiles w
   \<and> filter is_store_call (fst (ContainerStopped config faults totalEvents cid w)) = []"
proof -
  have noop: "CollectContainerEvents config faults totalEvents cid (snd (ContainerStopped_locked cid w))
       = ([], snd (ContainerStopped_locked cid w))"
    by (rule drain_unregistered) (rule ContainerStopped_locked_unregisters)
  have stopped: "ContainerStopped config faults totalEvents cid w = ContainerStopped_locked cid w"
    using noop by (cases "ContainerStopped_locked cid w") (simp add: ContainerStopped_def)
  show ?thesis
    using noop stopped
    by (simp add: drain_unregistered ContainerStopped_locked_profiles ContainerStopped_locked_effects)
qed

theorem unregistered_drain_is_noop_witness:
  "CollectContainerEvents scenario_config noFaults (noEvents\<lparr>SyscallEvents := [''read'']\<rparr>)
      scenario_cid emptyWorld = ([], emptyWorld)
   \<and> profiles (snd (ContainerStopped scenario_config noFaults (noEvents\<lparr>SyscallEvents := [''read'']\<rparr>)
      scenario_cid recordingWorld)) = Map.empty
   \<and> filter is_store_call (fst (ContainerStopped scenario_config noFaults
        (noEvents\<lparr>SyscallEvents := [''read'']\<rparr>) scenario_cid recordingWorld)) = []"
proof -
  have absent: "map_of (containers emptyWorld) scenario_cid = None"
    by (simp add: emptyWorld_def)
  have store: "profiles recordingWorld = Map.empty"
    by (simp add: recordingWorld_def emptyWorld_def)
  have a: "CollectContainerEvents scenario_config noFaults (noEvents\<lparr>SyscallEvents := [''read'']\<rparr>)
      scenario_cid emptyWorld = ([], emptyWorld)"
    using absent unregistered_drain_is_noop[of emptyWorld scenario_cid scenario_config noFaults
        "noEvents\<lparr>SyscallEvents := [''read'']\<rparr>"]
    by blast
  have b: "profiles (snd (ContainerStopped scenario_config noFaults (noEvents\<lparr>SyscallEvents := [''read'']\<rparr>)
      scenario_cid recordingWorld)) = profiles recordingWorld
   \<and> filter is_store_call (fst (ContainerStopped scenario_config noFaults
        (noEvents\<lparr>SyscallEvents := [''read'']\<rparr>) scenario_cid recordingWorld)) = []"
    using unregistered_drain_is_noop[of recordingWorld scenario_cid scenario_config noFaults
        "noEvents\<lparr>SyscallEvents := [''read'']\<rparr>"]
    by blast
  show ?thesis
    using a b by (simp only: store simp_thms)
qed


section \<open>Idle drains and the interval timer\<close>

lemma shouldProcessEvents_empty:
  "shouldProcessEvents totalEvents \<longleftrightarrow>
     \<not> (ExecEvents totalEvents = [] \<and> OpenEvents totalEvents = [] \<and> SyscallEvents totalEvents = []
        \<and> CapabilitiesEvents totalEvents = [] \<and> DnsEvents totalEvents = []
        \<and> NetworkEvents totalEvents = [])"
  by (auto simp: shouldProcessEvents_def)

lemma stopRecording_no_timer:
  "StartContainerTimer cid' \<notin> set (fst (stopRecording cid w))"
  by (simp add: stopRecording_def MarkPodNotRecording_def Let_def)

lemma profilePatchLabel_dom:
  "profiles (profilePatchLabel faults w key l) k = None \<longleftrightarrow> profiles w k = None"
  by (simp add: profilePatchLabel_def split: option.splits)

lemma drain_timer_iff:
  assumes reg: "map_of (containers w) cid = Some containerState"
  shows "StartContainerTimer cid \<in> set (fst (CollectContainerEvents config faults totalEvents cid w))
     \<longleftrightarrow> (shouldProcessEvents totalEvents
          \<and> (case profileGet faults w (profileKey config cid) of
               None \<Rightarrow> True
             | Some existingApplicationProfile \<Rightarrow>
                 Labels existingApplicationProfile label_final \<noteq> Some ''true''
                 \<and> \<not> update_err faults))"
proof (cases "shouldProcessEvents totalEvents")
  case False
  then show ?thesis using reg by (simp add: CollectContainerEvents_def)
next
  case True
  show ?thesis
  proof (cases "profileGet faults w (profileKey config cid)")
    case None
    then show ?thesis using reg True by (simp add: CollectContainerEvents_def Let_def)
  next
    case (Some existing)
    then have present: "profiles w (profileKey config cid) \<noteq> None"
      by (auto simp: profileGet_def split: if_splits)
    show ?thesis
    proof (cases "Labels existing label_final = Some ''true''")
      case final: True
      then show ?thesis using reg True Some
        by (simp add: CollectContainerEvents_def Let_def stopRecording_no_timer case_prod_beta)
    next
      case notfinal: False
      then show ?thesis using reg True Some present
        by (auto simp: CollectContainerEvents_def Let_def profileUpdate_def profilePatchLabel_dom
              stopRecording_def MarkPodNotRecording_def
            split: prod.splits if_splits)
    qed
  qed
qed

text \<open>
  Claim C9, as the code has it. For a registered container, a drain that finds all six
  event slices empty only reads the events and returns: it makes no call to the profile
  store and does not start the timer again. The timer is started again exactly when the
  drain had an event to process and took neither of its two early returns: the profile
  it read was not final, and the Update of the merge path did not fail. On the create
  path (the Get found no profile or failed) the timer is started again whatever Create
  answers: the code only logs that error.
\<close>

theorem idle_drain_returns_and_timer:
  assumes reg: "map_of (containers w) cid = Some containerState"
  shows "(ExecEvents totalEvents = [] \<and> OpenEvents totalEvents = [] \<and> SyscallEvents totalEvents = []
        \<and> CapabilitiesEvents totalEvents = [] \<and> DnsEvents totalEvents = []
        \<and> NetworkEvents totalEvents = []
      \<longrightarrow> CollectContainerEvents config faults totalEvents cid w = ([LoadTotalEvents cid], w))
   \<and> (StartContainerTimer cid \<in> set (fst (CollectContainerEvents config faults totalEvents cid w))
     \<longleftrightarrow> (shouldProcessEvents totalEvents
          \<and> (case profileGet faults w (profileKey config cid) of
               None \<Rightarrow> True
             | Some existingApplicationProfile \<Rightarrow>
                 Labels existingApplicationProfile label_final \<noteq> Some ''true''
                 \<and> \<not> update_err faults)))"
proof -
  have "\<not> shouldProcessEvents totalEvents
      \<longrightarrow> CollectContainerEvents config faults totalEvents cid w = ([LoadTotalEvents cid], w)"
    using reg by (simp add: CollectContainerEvents_def)
  then show ?thesis
    using drain_timer_iff[OF reg] by (simp add: shouldProcessEvents_empty)
qed

theorem idle_drain_returns_and_timer_witness:
  "CollectContainerEvents scenario_config noFaults noEvents scenario_cid recordingWorld
     = ([LoadTotalEvents scenario_cid], recordingWorld)
   \<and> StartContainerTimer scenario_cid \<in> set (fst (CollectContainerEvents scenario_config noFaults
        (noEvents\<lparr>SyscallEvents := [''read'']\<rparr>) scenario_cid recordingWorld))"
proof -
  have reg: "map_of (containers recordingWorld) scenario_cid = Some \<lparr>running = True, attached = False\<rparr>"
    by (simp add: recordingWorld_def emptyWorld_def)
  have absent: "profileGet noFaults recordingWorld (profileKey scenario_config scenario_cid) = None"
    by (simp add: profileGet_def recordingWorld_def emptyWorld_def)
  have a: "CollectContainerEvents scenario_config noFaults noEvents scenario_cid recordingWorld
     = ([LoadTotalEvents scenario_cid], recordingWorld)"
    using idle_drain_returns_and_timer[OF reg, of noEvents scenario_config noFaults]
    by (simp add: noEvents_def)
  have b: "StartContainerTimer scenario_cid \<in> set (fst (CollectContainerEvents scenario_config noFaults
        (noEvents\<lparr>SyscallEvents := [''read'']\<rparr>) scenario_cid recordingWorld))"
    using idle_drain_returns_and_timer[OF reg, of "noEvents\<lparr>SyscallEvents := [''read'']\<rparr>" scenario_config noFaults]
      absent
    by (simp add: shouldProcessEvents_def)
  show ?thesis using a b by simp
qed


text \<open>
  Claim C9, as stated, fails: the timer is also started again after a drain that did not
  succeed. With one syscall to process, no profile stored and a Create that fails, the
  drain calls Create, nothing is stored, and the timer of the container is started again.
\<close>

theorem timer_rearmed_after_failed_create:
  "map_of (containers recordingWorld) scenario_cid = Some \<lparr>running = True, attached = False\<rparr>
   \<and> shouldProcessEvents (noEvents\<lparr>SyscallEvents := [''read'']\<rparr>)
   \<and> create_err (noFaults\<lparr>create_err := True\<rparr>)
   \<and> fst (CollectContainerEvents scenario_config (noFaults\<lparr>create_err := True\<rparr>)
          (noEvents\<lparr>SyscallEvents := [''read'']\<rparr>) scenario_cid recordingWorld)
       = [LoadTotalEvents scenario_cid, ProfileGet (profileKey scenario_config scenario_cid),
          ProfileCreate (profileKey scenario_config scenario_cid), StartContainerTimer scenario_cid]
   \<and> profiles (snd (CollectContainerEvents scenario_config (noFaults\<lparr>create_err := True\<rparr>)
          (noEvents\<lparr>SyscallEvents := [''read'']\<rparr>) scenario_cid recordingWorld)) = Map.empty
   \<and> StartContainerTimer scenario_cid
       \<in> set (fst (CollectContainerEvents scenario_config (noFaults\<lparr>create_err := True\<rparr>)
          (noEvents\<lparr>SyscallEvents := [''read'']\<rparr>) scenario_cid recordingWorld))"
proof -
  have reg: "map_of (containers recordingWorld) scenario_cid = Some \<lparr>running = True, attached = False\<rparr>"
    by (simp add: recordingWorld_def emptyWorld_def)
  have events: "shouldProcessEvents (noEvents\<lparr>SyscallEvents := [''read'']\<rparr>)"
    by (simp add: shouldProcessEvents_def)
  have store: "profiles recordingWorld = Map.empty"
    by (simp add: recordingWorld_def emptyWorld_def)
  have drain: "CollectContainerEvents scenario_config (noFaults\<lparr>create_err := True\<rparr>)
          (noEvents\<lparr>SyscallEvents := [''read'']\<rparr>) scenario_cid recordingWorld
       = ([LoadTotalEvents scenario_cid, ProfileGet (profileKey scenario_config scenario_cid),
           ProfileCreate (profileKey scenario_config scenario_cid), StartContainerTimer scenario_cid],
          recordingWorld)"
    by (simp add: CollectContainerEvents_def reg events store Let_def profileGet_def
        profileCreate_def noFaults_def)
  show ?thesis
    by (simp add: reg events drain store)
qed


section \<open>The caps on opens and on network activity\<close>

lemma collectOpens_keeps_all:
  assumes "distinct (map oe_PathName events)"
    and "\<forall>e \<in> set events. \<forall>c \<in> set opens. oc_Path c \<noteq> oe_PathName e"
    and "IgnorePrefixes config = []"
    and "\<not> IgnoreMounts config"
    and "length opens + length events \<le> Suc MaxOpenEvents"
  shows "collectOpens config mounts events opens =
         opens @ map (\<lambda>e. \<lparr>oc_Path = oe_PathName e, oc_Flags = oe_Flags e\<rparr>) events"
  using assms
proof (induction events arbitrary: opens)
  case Nil
  then show ?case by simp
next
  case (Cons event events)
  have incl: "shouldIncludeOpenEvent config event opens mounts"
    using Cons.prems by (auto simp: shouldIncludeOpenEvent_iff)
  have "collectOpens config mounts events
          (opens @ [\<lparr>oc_Path = oe_PathName event, oc_Flags = oe_Flags event\<rparr>]) =
        (opens @ [\<lparr>oc_Path = oe_PathName event, oc_Flags = oe_Flags event\<rparr>])
          @ map (\<lambda>e. \<lparr>oc_Path = oe_PathName e, oc_Flags = oe_Flags e\<rparr>) events"
    using Cons.prems by (intro Cons.IH) auto
  then show ?case using incl by simp
qed

lemma length_manyOpens: "length (manyOpens n) = n"
  by (simp add: manyOpens_def)

lemma distinct_manyOpens: "distinct (map oe_PathName (manyOpens n))"
proof -
  have "inj_on (\<lambda>i. ''/data/'' @ replicate i CHR ''x'') (set [0..<n])"
    by (rule inj_onI) (metis length_replicate same_append_eq)
  then show ?thesis
    by (simp add: manyOpens_def distinct_map comp_def)
qed

lemma drain_manyOpens:
  assumes "n \<le> Suc MaxOpenEvents"
  shows "length (Opens (buildContainerProfile scenario_config cid mounts
            (noEvents\<lparr>OpenEvents := manyOpens n\<rparr>))) = n"
proof -
  have "collectOpens scenario_config mounts (manyOpens n) [] =
        [] @ map (\<lambda>e. \<lparr>oc_Path = oe_PathName e, oc_Flags = oe_Flags e\<rparr>) (manyOpens n)"
    using assms
    by (intro collectOpens_keeps_all)
       (simp_all add: distinct_manyOpens length_manyOpens scenario_config_def)
  then show ?thesis
    by (simp add: buildContainerProfile_def length_manyOpens split: prod.splits)
qed

lemma scenario_profileKey: "profileKey scenario_config scenario_cid = (''a'', ''pod-p'')"
  by (simp add: profileKey_def scenario_config_def scenario_cid_def GetApplicationProfileName_def
      ToLower_def toLowerChar_def)

text \<open>
  Claim C1. A drain of 10 001 open events with pairwise different paths, with no ignore
  prefix and mounts not ignored, for a recorded container whose profile does not exist
  yet: the profile that is created holds one container with 10 001 opens and carries
  the label failed=true. shouldIncludeOpenEvent refuses an event only when the list is
  already longer than MaxOpenEvents, so the event that finds 10 000 entries is still
  appended.
\<close>

theorem open_cap_lets_one_more_through:
  "(case profiles (snd (CollectContainerEvents scenario_config noFaults
            (noEvents\<lparr>OpenEvents := manyOpens 10001\<rparr>) scenario_cid recordingWorld))
          (''a'', ''pod-p'') of
      None \<Rightarrow> False
    | Some appProfile \<Rightarrow>
        map (\<lambda>c. length (Opens c)) (Containers appProfile) = [10001]
        \<and> Labels appProfile label_failed = Some ''true'')"
proof -
  have len: "length (Opens (buildContainerProfile scenario_config scenario_cid []
            (noEvents\<lparr>OpenEvents := manyOpens 10001\<rparr>))) = 10001"
    by (rule drain_manyOpens) (simp add: MaxOpenEvents_def)
  have events: "shouldProcessEvents (noEvents\<lparr>OpenEvents := manyOpens 10001\<rparr>)"
    by (simp add: shouldProcessEvents_def length_manyOpens)
  have reg: "map_of (containers recordingWorld) scenario_cid = Some \<lparr>running = True, attached = False\<rparr>"
    by (simp add: recordingWorld_def emptyWorld_def)
  have mounts: "mountsOf recordingWorld scenario_cid = []"
    by (simp add: mountsOf_def recordingWorld_def emptyWorld_def)
  have store: "profiles recordingWorld = Map.empty"
    by (simp add: recordingWorld_def emptyWorld_def)
  show ?thesis
    using len
    by (simp add: CollectContainerEvents_def reg events mounts store scenario_profileKey Let_def
        profileGet_def profileCreate_def noFaults_def newProfileLabels_def MaxOpenEvents_def
        scenario_config_def[THEN arg_cong[where f = StoreNamespace]])
qed

lemma networkEventExists_iff:
  "networkEventExists networkEvent networkCalls \<longleftrightarrow>
     (ne_DstEndpoint networkEvent, ne_Port networkEvent, ne_Protocol networkEvent)
       \<in> set (map (\<lambda>c. (nc_DstEndpoint c, nc_Port c, nc_Protocol c)) networkCalls)"
  by (induction networkCalls) auto

lemma collectNetwork_keeps_all_host:
  assumes "\<forall>e \<in> set events. ne_PacketType e = ''HOST''"
    and "distinct (map (\<lambda>e. (ne_DstEndpoint e, ne_Port e, ne_Protocol e)) events)"
    and "\<forall>e \<in> set events. \<not> networkEventExists e incoming"
  shows "collectNetwork events (outgoing, incoming) =
         (outgoing, incoming @ map (\<lambda>e. \<lparr>nc_Protocol = ne_Protocol e, nc_Port = ne_Port e,
                                           nc_DstEndpoint = ne_DstEndpoint e\<rparr>) events)"
  using assms
proof (induction events arbitrary: incoming)
  case Nil
  then show ?case by simp
next
  case (Cons event events)
  let ?call = "\<lparr>nc_Protocol = ne_Protocol event, nc_Port = ne_Port event,
                 nc_DstEndpoint = ne_DstEndpoint event\<rparr>"
  have "\<forall>e \<in> set events. \<not> networkEventExists e (incoming @ [?call])"
    using Cons.prems by (auto simp: networkEventExists_iff image_iff)
  then have "collectNetwork events (outgoing, incoming @ [?call]) =
        (outgoing, (incoming @ [?call]) @ map (\<lambda>e. \<lparr>nc_Protocol = ne_Protocol e, nc_Port = ne_Port e,
                                           nc_DstEndpoint = ne_DstEndpoint e\<rparr>) events)"
    using Cons.prems by (intro Cons.IH) auto
  then show ?case using Cons.prems by (simp add: Let_def)
qed

lemma length_manyConnections: "length (manyConnections n) = n"
  by (simp add: manyConnections_def)

lemma drain_manyConnections:
  "length (Incoming (NetworkActivity (buildContainerProfile config cid mounts
            (noEvents\<lparr>NetworkEvents := manyConnections n\<rparr>)))) = n"
proof -
  have "distinct (map (\<lambda>e. (ne_DstEndpoint e, ne_Port e, ne_Protocol e)) (manyConnections n))"
    by (simp add: manyConnections_def distinct_map comp_def inj_on_def)
  then have "collectNetwork (manyConnections n) ([], []) =
        ([], [] @ map (\<lambda>e. \<lparr>nc_Protocol = ne_Protocol e, nc_Port = ne_Port e,
                                           nc_DstEndpoint = ne_DstEndpoint e\<rparr>) (manyConnections n))"
    by (intro collectNetwork_keeps_all_host) (simp_all add: manyConnections_def)
  then show ?thesis
    by (simp add: buildContainerProfile_def length_manyConnections)
qed

text \<open>
  Claim C6. A drain of 10 001 incoming (HOST) network events with different ports for a
  recorded container whose profile does not exist yet: the profile that is created holds
  one container with 10 001 incoming connections. The drain builds the two network lists
  without any cap; only the merge into a stored container stops at MaxNetworkEvents.
\<close>

theorem created_profile_network_uncapped:
  "(case profiles (snd (CollectContainerEvents scenario_config noFaults
            (noEvents\<lparr>NetworkEvents := manyConnections 10001\<rparr>) scenario_cid recordingWorld))
          (''a'', ''pod-p'') of
      None \<Rightarrow> False
    | Some appProfile \<Rightarrow>
        map (\<lambda>c. length (Incoming (NetworkActivity c))) (Containers appProfile) = [10001])"
proof -
  have len: "length (Incoming (NetworkActivity (buildContainerProfile scenario_config scenario_cid []
            (noEvents\<lparr>NetworkEvents := manyConnections 10001\<rparr>)))) = 10001"
    by (rule drain_manyConnections)
  have events: "shouldProcessEvents (noEvents\<lparr>NetworkEvents := manyConnections 10001\<rparr>)"
    by (simp add: shouldProcessEvents_def length_manyConnections)
  have reg: "map_of (containers recordingWorld) scenario_cid = Some \<lparr>running = True, attached = False\<rparr>"
    by (simp add: recordingWorld_def emptyWorld_def)
  have mounts: "mountsOf recordingWorld scenario_cid = []"
    by (simp add: mountsOf_def recordingWorld_def emptyWorld_def)
  have store: "profiles recordingWorld = Map.empty"
    by (simp add: recordingWorld_def emptyWorld_def)
  show ?thesis
    using len
    by (simp add: CollectContainerEvents_def reg events mounts store scenario_profileKey Let_def
        profileGet_def profileCreate_def noFaults_def)
qed


section \<open>The record strategy only-if-not-exists\<close>

lemma ownerWalk_reads:
  "filter (\<lambda>e. \<not> is_cluster_read e) (fst (ownerWalk faults w namespace podName)) = []"
  by (simp add: ownerWalk_def split: option.splits prod.splits)

lemma web_ownerWalk:
  "snd (ownerWalk noFaults (deploymentWorld appProfile) (Namespace web_cid) (PodName web_cid))
     = Inr (''Deployment'', ''web'')"
  by (simp add: ownerWalk_def podGet_def replicaSetGet_def noFaults_def deploymentWorld_def
      emptyWorld_def web_cid_def)

lemma web_profile_name:
  "GetApplicationProfileName onlyIfNotExists_config (Namespace web_cid) ''Deployment'' ''web''
     = ''deployment-web''"
  by code_simp

lemma web_profile_read:
  "profileGet noFaults (deploymentWorld appProfile)
     (if StoreNamespace onlyIfNotExists_config \<noteq> [] then StoreNamespace onlyIfNotExists_config
      else Namespace web_cid,
      GetApplicationProfileName onlyIfNotExists_config (Namespace web_cid) ''Deployment'' ''web'')
   = Some appProfile"
  unfolding web_profile_name
  by (simp add: profileGet_def noFaults_def onlyIfNotExists_config_def scenario_config_def
      web_cid_def deploymentWorld_def)

lemma web_strategy: "RecordStrategy onlyIfNotExists_config = RecordStrategyOnlyIfNotExists"
  by (simp add: onlyIfNotExists_config_def)

lemma ContainerStarted_decision:
  assumes walk: "snd (ownerWalk faults w (Namespace cid) (PodName cid))
                   = Inr (workloadKind, workloadName)"
    and read: "profileGet faults w
        (if StoreNamespace config \<noteq> [] then StoreNamespace config else Namespace cid,
         GetApplicationProfileName config (Namespace cid) workloadKind workloadName) = Some appProfile"
  shows "snd (doesApplicationProfileExists config faults w (Namespace cid) (PodName cid) True True)
     = Inr (Labels appProfile label_final = Some ''true'')"
    and "filter (\<lambda>e. \<not> is_cluster_read e)
           (fst (doesApplicationProfileExists config faults w (Namespace cid) (PodName cid)
                   True True)) = []"
proof -
  obtain effs where ow: "ownerWalk faults w (Namespace cid) (PodName cid)
      = (effs, Inr (workloadKind, workloadName))"
    using walk by (cases "ownerWalk faults w (Namespace cid) (PodName cid)") simp
  have effs: "filter (\<lambda>e. \<not> is_cluster_read e) effs = []"
    using ownerWalk_reads[of faults w "Namespace cid" "PodName cid"] ow by simp
  show "snd (doesApplicationProfileExists config faults w (Namespace cid) (PodName cid) True True)
     = Inr (Labels appProfile label_final = Some ''true'')"
    using read by (simp add: doesApplicationProfileExists_def ow Let_def)
  show "filter (\<lambda>e. \<not> is_cluster_read e)
           (fst (doesApplicationProfileExists config faults w (Namespace cid) (PodName cid)
                   True True)) = []"
    using read effs by (simp add: doesApplicationProfileExists_def ow Let_def)
qed

text \<open>When the Get of the profile fails, the check ends with an error, whatever is stored.\<close>

lemma check_fails_when_Get_fails:
  "get_err faults
   \<Longrightarrow> snd (doesApplicationProfileExists config faults w namespace podName checkFinal checkOwner)
         \<noteq> Inr True"
  by (auto simp: doesApplicationProfileExists_def profileGet_def Let_def
      split: prod.splits sum.splits if_splits)

lemma ContainerStarted_skips:
  assumes "snd (doesApplicationProfileExists config faults w (Namespace cid) (PodName cid) True True)
             = Inr True"
    and "RecordStrategy config = RecordStrategyOnlyIfNotExists"
  shows "ContainerStarted config faults cid attach w
       = (fst (doesApplicationProfileExists config faults w (Namespace cid) (PodName cid) True True),
          w)"
  using assms
  by (cases "doesApplicationProfileExists config faults w (Namespace cid) (PodName cid) True True")
     (simp add: ContainerStarted_def)

lemma ContainerStarted_records:
  assumes "snd (doesApplicationProfileExists config faults w (Namespace cid) (PodName cid) True True)
             \<noteq> Inr True"
  shows "map_of (containers (snd (ContainerStarted config faults cid attach w))) cid
           = Some \<lparr>running = True, attached = attach\<rparr>
       \<and> AddFilter (ContainerID cid) \<in> set (fst (ContainerStarted config faults cid attach w))
       \<and> StartTraceContainer (NsMntId cid) (Pid cid)
           \<in> set (fst (ContainerStarted config faults cid attach w))
       \<and> StartContainerTimer cid \<in> set (fst (ContainerStarted config faults cid attach w))"
  using assms
  by (cases "doesApplicationProfileExists config faults w (Namespace cid) (PodName cid) True True")
     (auto simp: ContainerStarted_def Let_def MarkPodRecording_def AList.update_conv'
      split: prod.splits option.splits)

text \<open>
  Claim C3, as the code has it. ContainerStarted asks doesApplicationProfileExists with
  checkFinal set, so a profile counts as existing only when the check could read it and
  it carries the label final=true. Under the strategy only-if-not-exists, when the owner
  walk resolves the workload (its Gets succeed) and the Get of the workload's profile
  succeeds: if the profile read is final, ContainerStarted (for Start, attach false, and
  for Attach, attach true) leaves the whole state as it was and performs nothing but the
  reads of the check (no filter, no trace, no timer, no write); if the profile read is
  not final, the container is recorded as usual (registry entry, filter, trace, drain
  timer). A Get that fails makes the check return an error, which ContainerStarted
  ignores: the container is recorded then too (lemmas check_fails_when_Get_fails and
  ContainerStarted_records).
\<close>

theorem only_if_not_exists_skips_final_profiles:
  assumes strategy: "RecordStrategy config = RecordStrategyOnlyIfNotExists"
    and walk: "snd (ownerWalk faults w (Namespace cid) (PodName cid))
                 = Inr (workloadKind, workloadName)"
    and read: "profileGet faults w
        (if StoreNamespace config \<noteq> [] then StoreNamespace config else Namespace cid,
         GetApplicationProfileName config (Namespace cid) workloadKind workloadName) = Some appProfile"
  shows "(if Labels appProfile label_final = Some ''true''
          then snd (ContainerStarted config faults cid attach w) = w
             \<and> filter (\<lambda>e. \<not> is_cluster_read e)
                  (fst (ContainerStarted config faults cid attach w)) = []
          else map_of (containers (snd (ContainerStarted config faults cid attach w))) cid
                 = Some \<lparr>running = True, attached = attach\<rparr>
             \<and> AddFilter (ContainerID cid) \<in> set (fst (ContainerStarted config faults cid attach w))
             \<and> StartTraceContainer (NsMntId cid) (Pid cid)
                 \<in> set (fst (ContainerStarted config faults cid attach w))
             \<and> StartContainerTimer cid
                 \<in> set (fst (ContainerStarted config faults cid attach w)))"
proof (cases "Labels appProfile label_final = Some ''true''")
  case True
  have "snd (doesApplicationProfileExists config faults w (Namespace cid) (PodName cid) True True)
          = Inr True"
    using ContainerStarted_decision(1)[OF walk read] True by simp
  then have "ContainerStarted config faults cid attach w
       = (fst (doesApplicationProfileExists config faults w (Namespace cid) (PodName cid) True True),
          w)"
    using strategy by (rule ContainerStarted_skips)
  then show ?thesis
    using True ContainerStarted_decision(2)[OF walk read] by simp
next
  case False
  have "snd (doesApplicationProfileExists config faults w (Namespace cid) (PodName cid) True True)
          \<noteq> Inr True"
    using ContainerStarted_decision(1)[OF walk read] False by simp
  then show ?thesis
    using False ContainerStarted_records by simp
qed

theorem only_if_not_exists_skips_final_profiles_witness:
  "snd (ContainerStarted onlyIfNotExists_config noFaults web_cid False (deploymentWorld finalProfile))
     = deploymentWorld finalProfile
   \<and> filter (\<lambda>e. \<not> is_cluster_read e)
       (fst (ContainerStarted onlyIfNotExists_config noFaults web_cid False
               (deploymentWorld finalProfile))) = []"
  using only_if_not_exists_skips_final_profiles
    [OF web_strategy web_ownerWalk web_profile_read, of finalProfile False]
  by (simp add: finalProfile_def)

text \<open>
  Claim C3, as stated, fails: with the strategy only-if-not-exists, the owner walk
  resolving to the deployment web, and the Get of its profile succeeding with a profile
  that does not carry the label final, the started container is added to the registry,
  its filter is installed and its trace is started.
\<close>

theorem existing_profile_without_final_is_recorded:
  "RecordStrategy onlyIfNotExists_config = RecordStrategyOnlyIfNotExists
   \<and> snd (ownerWalk noFaults (deploymentWorld emptyProfile) (Namespace web_cid) (PodName web_cid))
       = Inr (''Deployment'', ''web'')
   \<and> profileGet noFaults (deploymentWorld emptyProfile) (''a'', ''deployment-web'')
       = Some emptyProfile
   \<and> map_of (containers (snd (ContainerStarted onlyIfNotExists_config noFaults web_cid False
         (deploymentWorld emptyProfile)))) web_cid = Some \<lparr>running = True, attached = False\<rparr>
   \<and> AddFilter (ContainerID web_cid)
       \<in> set (fst (ContainerStarted onlyIfNotExists_config noFaults web_cid False
                    (deploymentWorld emptyProfile)))
   \<and> StartTraceContainer (NsMntId web_cid) (Pid web_cid)
       \<in> set (fst (ContainerStarted onlyIfNotExists_config noFaults web_cid False
                    (deploymentWorld emptyProfile)))"
proof -
  have "snd (doesApplicationProfileExists onlyIfNotExists_config noFaults
          (deploymentWorld emptyProfile) (Namespace web_cid) (PodName web_cid) True True)
        \<noteq> Inr True"
    using ContainerStarted_decision(1)[OF web_ownerWalk web_profile_read, of emptyProfile]
    by (simp add: emptyProfile_def)
  then show ?thesis
    using ContainerStarted_records web_ownerWalk web_strategy
    by (simp add: deploymentWorld_def profileGet_def noFaults_def)
qed


section \<open>Exec entries of stored profiles\<close>

lemma execEventExists_iff:
  "execEventExists execEvent execCalls \<longleftrightarrow>
     \<lparr>ec_Path = ee_PathName execEvent, ec_Args = ee_Args execEvent, ec_Envs = ee_Env execEvent\<rparr>
       \<in> set execCalls"
  by (induction execCalls) auto

lemma collectExecs_deduplicated:
  "distinct (filter (\<lambda>exec. ec_Path exec \<noteq> []) execs)
   \<Longrightarrow> distinct (filter (\<lambda>exec. ec_Path exec \<noteq> []) (collectExecs events execs))"
  by (induction events arbitrary: execs) (auto simp: execEventExists_iff)

lemma mergeExecs_deduplicated:
  assumes "distinct (filter (\<lambda>exec. ec_Path exec \<noteq> []) existing)"
    and "distinct (filter (\<lambda>exec. ec_Path exec \<noteq> []) delta)"
  shows "distinct (filter (\<lambda>exec. ec_Path exec \<noteq> []) (mergeExecs existing delta))"
proof -
  have same: "\<And>exec. execEventExists
        \<lparr>ee_PathName = ec_Path exec, ee_Args = ec_Args exec, ee_Env = ec_Envs exec\<rparr> existing
        \<longleftrightarrow> exec \<in> set existing"
    subgoal for exec by (cases exec) (simp add: execEventExists_iff)
    done
  have "filter (\<lambda>exec. ec_Path exec \<noteq> []) (filter (\<lambda>exec. exec \<notin> set existing) delta)
      = filter (\<lambda>exec. exec \<notin> set existing) (filter (\<lambda>exec. ec_Path exec \<noteq> []) delta)"
    by (induction delta) auto
  then have "distinct (filter (\<lambda>exec. ec_Path exec \<noteq> []) (filter (\<lambda>exec. exec \<notin> set existing) delta))"
    using assms(2) by (simp only: distinct_filter)
  then show ?thesis
    using assms(1) by (auto simp: mergeExecs_def same)
qed

lemma buildContainerProfile_deduplicated:
  "execs_deduplicated (buildContainerProfile config cid mounts totalEvents)"
  using collectExecs_deduplicated[of "[]" "ExecEvents totalEvents"]
  by (simp add: execs_deduplicated_def buildContainerProfile_def split: prod.splits)

lemma mergeContainer_deduplicated:
  "execs_deduplicated existingContainer \<Longrightarrow> execs_deduplicated containerProfile
   \<Longrightarrow> execs_deduplicated (mergeContainer config mounts existingContainer containerProfile)"
  by (simp add: execs_deduplicated_def mergeContainer_def mergeExecs_deduplicated)

lemma mergeContainers_deduplicated:
  "list_all execs_deduplicated existing \<Longrightarrow> execs_deduplicated containerProfile
   \<Longrightarrow> list_all execs_deduplicated (mergeContainers config mounts existing containerProfile)"
  by (induction existing) (auto simp: mergeContainer_deduplicated)

lemma store_execs_same_profiles:
  "profiles w' = profiles w \<Longrightarrow> store_execs_deduplicated w' = store_execs_deduplicated w"
  by (simp add: store_execs_deduplicated_def)

lemma profileCreate_deduplicated:
  "store_execs_deduplicated w \<Longrightarrow> list_all execs_deduplicated (Containers appProfile)
   \<Longrightarrow> store_execs_deduplicated (profileCreate faults w key appProfile)"
  by (auto simp: store_execs_deduplicated_def profileCreate_def)

lemma profileUpdate_deduplicated:
  "store_execs_deduplicated w \<Longrightarrow> list_all execs_deduplicated (Containers appProfile)
   \<Longrightarrow> store_execs_deduplicated (snd (profileUpdate faults w key appProfile))"
  by (auto simp: store_execs_deduplicated_def profileUpdate_def)

lemma profilePatchLabel_deduplicated:
  "store_execs_deduplicated w \<Longrightarrow> store_execs_deduplicated (profilePatchLabel faults w key l)"
  by (auto simp: store_execs_deduplicated_def profilePatchLabel_def split: option.splits)

lemma stopRecording_profiles: "profiles (snd (stopRecording cid w)) = profiles w"
  by (simp add: stopRecording_def MarkPodNotRecording_def Let_def)

lemma ContainerStarted_profiles:
  "profiles (snd (ContainerStarted config faults cid attach w)) = profiles w"
  by (cases "doesApplicationProfileExists config faults w (Namespace cid) (PodName cid) True True")
     (auto simp: ContainerStarted_def Let_def MarkPodRecording_def split: prod.splits option.splits)

lemma CollectContainerEvents_deduplicated:
  assumes ok: "store_execs_deduplicated w"
  shows "store_execs_deduplicated (snd (CollectContainerEvents config faults totalEvents cid w))"
proof (cases "map_of (containers w) cid")
  case None
  then show ?thesis using ok by (simp add: CollectContainerEvents_def)
next
  case (Some containerState)
  let ?delta = "buildContainerProfile config cid (mountsOf w cid) totalEvents"
  let ?key = "profileKey config cid"
  have delta: "execs_deduplicated ?delta"
    by (rule buildContainerProfile_deduplicated)
  show ?thesis
  proof (cases "shouldProcessEvents totalEvents")
    case False
    then show ?thesis using ok Some by (simp add: CollectContainerEvents_def)
  next
    case events: True
    show ?thesis
    proof (cases "profileGet faults w ?key")
      case None
      then show ?thesis using ok Some events delta
        by (simp add: CollectContainerEvents_def Let_def profileCreate_deduplicated)
    next
      case existing: (Some existingApplicationProfile)
      then have stored: "profiles w ?key = Some existingApplicationProfile"
        by (auto simp: profileGet_def split: if_splits)
      then have old: "list_all execs_deduplicated (Containers existingApplicationProfile)"
        using ok unfolding store_execs_deduplicated_def by blast
      show ?thesis
      proof (cases "Labels existingApplicationProfile label_final = Some ''true''")
        case True
        then show ?thesis using ok Some events existing
          by (simp add: CollectContainerEvents_def Let_def case_prod_beta
              store_execs_same_profiles[OF stopRecording_profiles])
      next
        case False
        define w1 where "w1 = (if length (Opens ?delta) \<ge> MaxOpenEvents
                                then profilePatchLabel faults w ?key label_failed else w)"
        define obj where "obj = (if \<not> attached containerState
                                 \<and> Labels existingApplicationProfile label_partial = Some ''true''
                              then existingApplicationProfile\<lparr>Labels := [label_partial \<mapsto> ''false'']\<rparr>
                              else existingApplicationProfile)"
        define merged where "merged = mergeApplicationProfiles config w1 obj ?delta cid"
        have w1: "store_execs_deduplicated w1"
          using ok by (simp add: w1_def profilePatchLabel_deduplicated)
        have "Containers obj = Containers existingApplicationProfile"
          by (simp add: obj_def)
        then have merged: "list_all execs_deduplicated (Containers merged)"
          using old delta by (simp add: merged_def mergeApplicationProfiles_def mergeContainers_deduplicated)
        have result: "snd (CollectContainerEvents config faults totalEvents cid w) =
            (case profileUpdate faults w1 ?key merged of
               (True, w2) \<Rightarrow> w2
             | (False, w2) \<Rightarrow> profilePatchLabel faults (snd (stopRecording cid w2)) ?key label_failed)"
          using Some events existing False
          by (simp add: CollectContainerEvents_def Let_def case_prod_beta w1_def obj_def merged_def
              split: bool.splits)
        have upd: "store_execs_deduplicated (snd (profileUpdate faults w1 ?key merged))"
          using w1 merged by (rule profileUpdate_deduplicated)
        show ?thesis
          unfolding result using upd
          by (cases "profileUpdate faults w1 ?key merged")
             (auto simp: profilePatchLabel_deduplicated
                store_execs_same_profiles[OF stopRecording_profiles] split: bool.splits)
      qed
    qed
  qed
qed

lemma perform_deduplicated:
  assumes ok: "store_execs_deduplicated w"
  shows "store_execs_deduplicated (snd (perform config a w))"
proof (cases a)
  case (ContainerActivityEventStart cid faults)
  then show ?thesis using ok
    by (simp add: store_execs_same_profiles[OF ContainerStarted_profiles])
next
  case (ContainerActivityEventAttached cid faults)
  then show ?thesis using ok
    by (simp add: store_execs_same_profiles[OF ContainerStarted_profiles])
next
  case (ContainerActivityEventStop cid faults totalEvents)
  have "store_execs_deduplicated (snd (ContainerStopped_locked cid w))"
    using ok by (simp add: store_execs_same_profiles[OF ContainerStopped_locked_profiles])
  then have "store_execs_deduplicated (snd (CollectContainerEvents config faults totalEvents cid
                 (snd (ContainerStopped_locked cid w))))"
    by (rule CollectContainerEvents_deduplicated)
  then show ?thesis using ContainerActivityEventStop
    by (simp add: ContainerStopped_def case_prod_beta)
next
  case (DrainTimer cid faults totalEvents)
  then show ?thesis using ok by (simp add: CollectContainerEvents_deduplicated)
next
  case (FinalizeTimer cid faults)
  then show ?thesis using ok
    by (simp add: FinalizeApplicationProfile_def profilePatchLabel_deduplicated split: option.splits)
qed

lemma run_deduplicated:
  "store_execs_deduplicated w \<Longrightarrow> store_execs_deduplicated (run config actions w)"
  by (induction actions arbitrary: w) (simp_all add: perform_deduplicated)

lemma scenario_drain_creates:
  assumes "shouldProcessEvents totalEvents"
  shows "profiles (snd (CollectContainerEvents scenario_config noFaults totalEvents scenario_cid
            recordingWorld)) (''a'', ''pod-p'')
       = Some \<lparr>Labels = newProfileLabels scenario_config scenario_cid \<lparr>running = True, attached = False\<rparr>
                  (buildContainerProfile scenario_config scenario_cid [] totalEvents),
               Containers = [buildContainerProfile scenario_config scenario_cid [] totalEvents]\<rparr>"
proof -
  have reg: "map_of (containers recordingWorld) scenario_cid = Some \<lparr>running = True, attached = False\<rparr>"
    by (simp add: recordingWorld_def emptyWorld_def)
  have mounts: "mountsOf recordingWorld scenario_cid = []"
    by (simp add: mountsOf_def recordingWorld_def emptyWorld_def)
  have store: "profiles recordingWorld = Map.empty"
    by (simp add: recordingWorld_def emptyWorld_def)
  show ?thesis
    using assms
    by (simp add: CollectContainerEvents_def reg mounts store scenario_profileKey Let_def
        profileGet_def profileCreate_def noFaults_def)
qed

text \<open>
  Claim C5, as the code has it. Starting from an empty store, after any sequence of
  container starts, stops, drains and finalizations, in every container of every stored
  profile the exec entries that have a path are pairwise different: no two of them agree
  in path, args and envs. (The drain appends an exec event without a path name whether
  or not it is already there, so entries with the empty path can repeat.)
\<close>

theorem stored_execs_with_path_are_distinct:
  assumes empty: "profiles w = Map.empty"
    and stored: "profiles (run config actions w) key = Some appProfile"
    and member: "containerProfile \<in> set (Containers appProfile)"
  shows "distinct (filter (\<lambda>exec. ec_Path exec \<noteq> []) (Execs containerProfile))"
proof -
  have "store_execs_deduplicated w"
    using empty by (simp add: store_execs_deduplicated_def)
  then have "store_execs_deduplicated (run config actions w)"
    by (rule run_deduplicated)
  then have "list_all execs_deduplicated (Containers appProfile)"
    using stored unfolding store_execs_deduplicated_def by blast
  then show ?thesis
    using member by (simp add: list_all_iff execs_deduplicated_def)
qed

theorem stored_execs_with_path_are_distinct_witness:
  "profiles (run scenario_config
       [DrainTimer scenario_cid noFaults (noEvents\<lparr>ExecEvents := [exec_sh, exec_ls, exec_sh]\<rparr>)]
       recordingWorld) (''a'', ''pod-p'')
     = Some \<lparr>Labels = Map.empty,
             Containers = [\<lparr>Name = ''c'', SysCalls = [],
                Execs = [\<lparr>ec_Path = ''/bin/sh'', ec_Args = [''-c'', ''id''], ec_Envs = []\<rparr>,
                         \<lparr>ec_Path = ''/bin/ls'', ec_Args = [''-l''], ec_Envs = []\<rparr>],
                Dns = [], Capabilities = [], Opens = [],
                NetworkActivity = \<lparr>Incoming = [], Outgoing = []\<rparr>\<rparr>]\<rparr>
   \<and> distinct (filter (\<lambda>exec. ec_Path exec \<noteq> [])
        [\<lparr>ec_Path = ''/bin/sh'', ec_Args = [''-c'', ''id''], ec_Envs = []\<rparr>,
         \<lparr>ec_Path = ''/bin/ls'', ec_Args = [''-l''], ec_Envs = []\<rparr>])"
proof -
  have empty: "profiles recordingWorld = Map.empty"
    by (simp add: recordingWorld_def emptyWorld_def)
  have events: "shouldProcessEvents (noEvents\<lparr>ExecEvents := [exec_sh, exec_ls, exec_sh]\<rparr>)"
    by (simp add: shouldProcessEvents_def)
  have stored: "profiles (run scenario_config
       [DrainTimer scenario_cid noFaults (noEvents\<lparr>ExecEvents := [exec_sh, exec_ls, exec_sh]\<rparr>)]
       recordingWorld) (''a'', ''pod-p'')
     = Some \<lparr>Labels = Map.empty,
             Containers = [\<lparr>Name = ''c'', SysCalls = [],
                Execs = [\<lparr>ec_Path = ''/bin/sh'', ec_Args = [''-c'', ''id''], ec_Envs = []\<rparr>,
                         \<lparr>ec_Path = ''/bin/ls'', ec_Args = [''-l''], ec_Envs = []\<rparr>],
                Dns = [], Capabilities = [], Opens = [],
                NetworkActivity = \<lparr>Incoming = [], Outgoing = []\<rparr>\<rparr>]\<rparr>"
  proof -
    have build: "buildContainerProfile scenario_config scenario_cid []
          (noEvents\<lparr>ExecEvents := [exec_sh, exec_ls, exec_sh]\<rparr>)
        = \<lparr>Name = ''c'', SysCalls = [],
                Execs = [\<lparr>ec_Path = ''/bin/sh'', ec_Args = [''-c'', ''id''], ec_Envs = []\<rparr>,
                         \<lparr>ec_Path = ''/bin/ls'', ec_Args = [''-l''], ec_Envs = []\<rparr>],
                Dns = [], Capabilities = [], Opens = [],
                NetworkActivity = \<lparr>Incoming = [], Outgoing = []\<rparr>\<rparr>"
      by (simp add: buildContainerProfile_def exec_sh_def exec_ls_def noEvents_def scenario_cid_def)
    have labels: "newProfileLabels scenario_config scenario_cid \<lparr>running = True, attached = False\<rparr>
          \<lparr>Name = ''c'', SysCalls = [],
                Execs = [\<lparr>ec_Path = ''/bin/sh'', ec_Args = [''-c'', ''id''], ec_Envs = []\<rparr>,
                         \<lparr>ec_Path = ''/bin/ls'', ec_Args = [''-l''], ec_Envs = []\<rparr>],
                Dns = [], Capabilities = [], Opens = [],
                NetworkActivity = \<lparr>Incoming = [], Outgoing = []\<rparr>\<rparr> = Map.empty"
      by (simp add: newProfileLabels_def scenario_config_def MaxOpenEvents_def)
    show ?thesis
      using scenario_drain_creates[OF events] by (simp only: run.simps perform.simps build labels)
  qed
  show ?thesis
    using stored stored_execs_with_path_are_distinct[OF empty stored, of 
        "\<lparr>Name = ''c'', SysCalls = [],
                Execs = [\<lparr>ec_Path = ''/bin/sh'', ec_Args = [''-c'', ''id''], ec_Envs = []\<rparr>,
                         \<lparr>ec_Path = ''/bin/ls'', ec_Args = [''-l''], ec_Envs = []\<rparr>],
                Dns = [], Capabilities = [], Opens = [],
                NetworkActivity = \<lparr>Incoming = [], Outgoing = []\<rparr>\<rparr>"]
    by simp
qed


text \<open>
  Claim C5, as stated, fails for entries with the empty path: a drain of two equal exec
  events without a path name creates a profile whose container holds the entry twice.
\<close>

theorem execs_without_path_repeat:
  "(case profiles (snd (CollectContainerEvents scenario_config noFaults
            (noEvents\<lparr>ExecEvents := [exec_nopath, exec_nopath]\<rparr>) scenario_cid recordingWorld))
          (''a'', ''pod-p'') of
      None \<Rightarrow> False
    | Some appProfile \<Rightarrow>
        map Execs (Containers appProfile) =
          [[\<lparr>ec_Path = [], ec_Args = [''-c'', ''id''], ec_Envs = []\<rparr>,
            \<lparr>ec_Path = [], ec_Args = [''-c'', ''id''], ec_Envs = []\<rparr>]])"
proof -
  have "shouldProcessEvents (noEvents\<lparr>ExecEvents := [exec_nopath, exec_nopath]\<rparr>)"
    by (simp add: shouldProcessEvents_def)
  then have "profiles (snd (CollectContainerEvents scenario_config noFaults
            (noEvents\<lparr>ExecEvents := [exec_nopath, exec_nopath]\<rparr>) scenario_cid recordingWorld))
          (''a'', ''pod-p'') \<noteq> None
      \<and> map Execs (Containers (the (profiles (snd (CollectContainerEvents scenario_config noFaults
            (noEvents\<lparr>ExecEvents := [exec_nopath, exec_nopath]\<rparr>) scenario_cid recordingWorld))
          (''a'', ''pod-p'')))) = [collectExecs [exec_nopath, exec_nopath] []]"
    by (simp add: scenario_drain_creates buildContainerProfile_def noEvents_def)
  then show ?thesis
    by (auto simp: exec_nopath_def)
qed


section \<open>Final profiles\<close>

lemma sealed_same_profiles:
  "profiles w' = profiles w \<Longrightarrow> sealed w' key containerProfiles = sealed w key containerProfiles"
  by (simp add: sealed_def)

lemma profileCreate_sealed:
  "sealed w key containerProfiles \<Longrightarrow> sealed (profileCreate faults w k appProfile) key containerProfiles"
  by (auto simp: sealed_def profileCreate_def split: option.splits)

lemma profilePatchLabel_sealed:
  "sealed w key containerProfiles \<Longrightarrow> sealed (profilePatchLabel faults w k l) key containerProfiles"
  by (auto simp: sealed_def profilePatchLabel_def split: option.splits)

lemma profileUpdate_sealed:
  "sealed w key containerProfiles \<Longrightarrow> k \<noteq> key
   \<Longrightarrow> sealed (snd (profileUpdate faults w k appProfile)) key containerProfiles"
  by (auto simp: sealed_def profileUpdate_def split: option.splits)

lemma CollectContainerEvents_sealed:
  assumes ok: "sealed w key containerProfiles"
  shows "sealed (snd (CollectContainerEvents config faults totalEvents cid w)) key containerProfiles"
proof (cases "map_of (containers w) cid")
  case None
  then show ?thesis using ok by (simp add: CollectContainerEvents_def)
next
  case (Some containerState)
  let ?delta = "buildContainerProfile config cid (mountsOf w cid) totalEvents"
  let ?key = "profileKey config cid"
  show ?thesis
  proof (cases "shouldProcessEvents totalEvents")
    case False
    then show ?thesis using ok Some by (simp add: CollectContainerEvents_def)
  next
    case events: True
    show ?thesis
    proof (cases "profileGet faults w ?key")
      case None
      then show ?thesis using ok Some events
        by (simp add: CollectContainerEvents_def Let_def profileCreate_sealed)
    next
      case existing: (Some existingApplicationProfile)
      then have stored: "profiles w ?key = Some existingApplicationProfile"
        by (auto simp: profileGet_def split: if_splits)
      show ?thesis
      proof (cases "Labels existingApplicationProfile label_final = Some ''true''")
        case True
        then show ?thesis using ok Some events existing
          by (simp add: CollectContainerEvents_def Let_def case_prod_beta
              sealed_same_profiles[OF stopRecording_profiles])
      next
        case False
        then have other: "?key \<noteq> key"
          using ok stored by (auto simp: sealed_def)
        define w1 where "w1 = (if length (Opens ?delta) \<ge> MaxOpenEvents
                                then profilePatchLabel faults w ?key label_failed else w)"
        define obj where "obj = (if \<not> attached containerState
                                 \<and> Labels existingApplicationProfile label_partial = Some ''true''
                              then existingApplicationProfile\<lparr>Labels := [label_partial \<mapsto> ''false'']\<rparr>
                              else existingApplicationProfile)"
        define merged where "merged = mergeApplicationProfiles config w1 obj ?delta cid"
        have w1: "sealed w1 key containerProfiles"
          using ok by (simp add: w1_def profilePatchLabel_sealed)
        have result: "snd (CollectContainerEvents config faults totalEvents cid w) =
            (case profileUpdate faults w1 ?key merged of
               (True, w2) \<Rightarrow> w2
             | (False, w2) \<Rightarrow> profilePatchLabel faults (snd (stopRecording cid w2)) ?key label_failed)"
          using Some events existing False
          by (simp add: CollectContainerEvents_def Let_def case_prod_beta w1_def obj_def merged_def
              split: bool.splits)
        have upd: "sealed (snd (profileUpdate faults w1 ?key merged)) key containerProfiles"
          using w1 other by (rule profileUpdate_sealed)
        show ?thesis
          unfolding result using upd
          by (cases "profileUpdate faults w1 ?key merged")
             (auto simp: profilePatchLabel_sealed
                sealed_same_profiles[OF stopRecording_profiles] split: bool.splits)
      qed
    qed
  qed
qed

lemma perform_sealed:
  assumes ok: "sealed w key containerProfiles"
  shows "sealed (snd (perform config a w)) key containerProfiles"
proof (cases a)
  case (ContainerActivityEventStart cid faults)
  then show ?thesis using ok
    by (simp add: sealed_same_profiles[OF ContainerStarted_profiles])
next
  case (ContainerActivityEventAttached cid faults)
  then show ?thesis using ok
    by (simp add: sealed_same_profiles[OF ContainerStarted_profiles])
next
  case (ContainerActivityEventStop cid faults totalEvents)
  have "sealed (snd (ContainerStopped_locked cid w)) key containerProfiles"
    using ok by (simp add: sealed_same_profiles[OF ContainerStopped_locked_profiles])
  then have "sealed (snd (CollectContainerEvents config faults totalEvents cid
                 (snd (ContainerStopped_locked cid w)))) key containerProfiles"
    by (rule CollectContainerEvents_sealed)
  then show ?thesis using ContainerActivityEventStop
    by (simp add: ContainerStopped_def case_prod_beta)
next
  case (DrainTimer cid faults totalEvents)
  then show ?thesis using ok by (simp add: CollectContainerEvents_sealed)
next
  case (FinalizeTimer cid faults)
  then show ?thesis using ok
    by (simp add: FinalizeApplicationProfile_def profilePatchLabel_sealed split: option.splits)
qed

lemma run_sealed:
  "sealed w key containerProfiles \<Longrightarrow> sealed (run config actions w) key containerProfiles"
  by (induction actions arbitrary: w) (simp_all add: perform_sealed)

lemma drain_of_final_profile:
  assumes reg: "map_of (containers w) cid = Some containerState"
    and events: "shouldProcessEvents totalEvents"
    and read: "profileGet faults w (profileKey config cid) = Some appProfile"
    and final: "Labels appProfile label_final = Some ''true''"
  shows "CollectContainerEvents config faults totalEvents cid w =
       ([LoadTotalEvents cid, ProfileGet (profileKey config cid), RemoveFilter (ContainerID cid),
         StopTraceContainer (NsMntId cid) (Pid cid),
         CancelFinalizeTimer (finalizerKey (PodName cid) (Namespace cid))],
        w\<lparr>podFinalizerState :=
             (podFinalizerState w)(finalizerKey (PodName cid) (Namespace cid) := None),
          containers := AList.delete cid (containers w)\<rparr>)"
  using assms
  by (simp add: CollectContainerEvents_def Let_def stopRecording_def MarkPodNotRecording_def)

text \<open>
  Claim C2. When a drain of a registered container has events to process and the profile
  it reads carries final=true, the drain writes nothing to the store (no Create, no
  Update, no Patch): after loading the events and reading the profile it removes the
  filter of the container from the event sink, stops its trace, un-marks the pod
  (MarkPodNotRecording: the finalizer entry of the pod is cleared and its timer
  cancelled) and deletes the container from the registry. From then on, whatever the
  collector is asked to do (starts, stops, drains, finalizations, in any order and with
  any faults of the cluster API), the profile stays stored under its key, stays final
  and keeps the containers of its Spec as they were.
\<close>

theorem final_profile_is_torn_down_not_written:
  assumes reg: "map_of (containers w) cid = Some containerState"
    and events: "shouldProcessEvents totalEvents"
    and read: "profileGet faults w (profileKey config cid) = Some appProfile"
    and final: "Labels appProfile label_final = Some ''true''"
  shows "CollectContainerEvents config faults totalEvents cid w =
       ([LoadTotalEvents cid, ProfileGet (profileKey config cid), RemoveFilter (ContainerID cid),
         StopTraceContainer (NsMntId cid) (Pid cid),
         CancelFinalizeTimer (finalizerKey (PodName cid) (Namespace cid))],
        w\<lparr>podFinalizerState :=
             (podFinalizerState w)(finalizerKey (PodName cid) (Namespace cid) := None),
          containers := AList.delete cid (containers w)\<rparr>)
     \<and> filter is_store_write (fst (CollectContainerEvents config faults totalEvents cid w)) = []
     \<and> profiles (snd (CollectContainerEvents config faults totalEvents cid w)) = profiles w
     \<and> map_of (containers (snd (CollectContainerEvents config faults totalEvents cid w))) cid = None
     \<and> podFinalizerState (snd (CollectContainerEvents config faults totalEvents cid w))
          (finalizerKey (PodName cid) (Namespace cid)) = None
     \<and> sealed (run config actions (snd (CollectContainerEvents config faults totalEvents cid w)))
          (profileKey config cid) (Containers appProfile)"
proof -
  note drain = drain_of_final_profile[OF assms]
  have stored: "profiles w (profileKey config cid) = Some appProfile"
    using read by (auto simp: profileGet_def split: if_splits)
  have "sealed w (profileKey config cid) (Containers appProfile)"
    using stored final by (simp add: sealed_def)
  then have "sealed (snd (CollectContainerEvents config faults totalEvents cid w))
      (profileKey config cid) (Containers appProfile)"
    by (rule CollectContainerEvents_sealed)
  then have later: "sealed (run config actions (snd (CollectContainerEvents config faults totalEvents cid w)))
          (profileKey config cid) (Containers appProfile)"
    by (rule run_sealed)
  show ?thesis
    using later by (simp add: drain AList.delete_conv')
qed

theorem final_profile_is_torn_down_not_written_witness:
  "CollectContainerEvents scenario_config noFaults (noEvents\<lparr>ExecEvents := [exec_sh]\<rparr>)
       scenario_cid sealedWorld =
       ([LoadTotalEvents scenario_cid, ProfileGet (''a'', ''pod-p''),
         RemoveFilter (ContainerID scenario_cid),
         StopTraceContainer (NsMntId scenario_cid) (Pid scenario_cid),
         CancelFinalizeTimer (finalizerKey (PodName scenario_cid) (Namespace scenario_cid))],
        sealedWorld\<lparr>podFinalizerState :=
             (podFinalizerState sealedWorld)
               (finalizerKey (PodName scenario_cid) (Namespace scenario_cid) := None),
          containers := AList.delete scenario_cid (containers sealedWorld)\<rparr>)
   \<and> sealed (run scenario_config
        [ContainerActivityEventStart scenario_cid noFaults,
         DrainTimer scenario_cid noFaults (noEvents\<lparr>ExecEvents := [exec_ls]\<rparr>),
         FinalizeTimer scenario_cid noFaults]
        (snd (CollectContainerEvents scenario_config noFaults (noEvents\<lparr>ExecEvents := [exec_sh]\<rparr>)
           scenario_cid sealedWorld)))
       (''a'', ''pod-p'') []"
proof -
  have reg: "map_of (containers sealedWorld) scenario_cid = Some \<lparr>running = True, attached = False\<rparr>"
    by (simp add: sealedWorld_def recordingWorld_def emptyWorld_def)
  have events: "shouldProcessEvents (noEvents\<lparr>ExecEvents := [exec_sh]\<rparr>)"
    by (simp add: shouldProcessEvents_def)
  have read: "profileGet noFaults sealedWorld (profileKey scenario_config scenario_cid) = Some finalProfile"
    by (simp add: scenario_profileKey profileGet_def noFaults_def sealedWorld_def)
  have final: "Labels finalProfile label_final = Some ''true''"
    by (simp add: finalProfile_def)
  have containers: "Containers finalProfile = []"
    by (simp add: finalProfile_def)
  note at_scenario = final_profile_is_torn_down_not_written[OF reg events read final, of
        "[ContainerActivityEventStart scenario_cid noFaults,
         DrainTimer scenario_cid noFaults (noEvents\<lparr>ExecEvents := [exec_ls]\<rparr>),
         FinalizeTimer scenario_cid noFaults]", unfolded scenario_profileKey containers]
  show ?thesis
    using at_scenario by blast
qed


end
